theory Spec2Isabelle
  imports Complex_Main "HOL-Library.Sublist" "HOL-Library.Log_Nat"
begin

section \<open>Arrays and the store\<close>

text \<open>
  The scripts \<^verbatim>\<open>reader.py\<close> and \<^verbatim>\<open>viewer.py\<close> work on NumPy arrays. An array
  object is a header (element type, shape, the buffer it reads and where in that buffer
  it starts); the store is the list of buffers, a buffer's address being its position.
  A NumPy operation that returns a new array appends a buffer; an index expression such
  as \<^verbatim>\<open>data[t, :, :]\<close> returns a view, a new header over the same buffer.

  Element values are real numbers; integer arrays hold integer-valued reals. A
  floating-point operation is the exact operation followed by rounding to the nearest
  number of the result type, ties to even. NaN and the infinities have no value here:
  arrays hold finite numbers, and a result beyond the largest finite number of its type
  stays finite. Casts to an integer type are written out. Where NumPy's rules depend on
  its version, the rules are those of NumPy 2.
\<close>

datatype dtype =
  UInt8 | Int8 | UInt16 | Int16 | UInt32 | Int32 | UInt64 | Int64 | Float32 | Float64

text \<open>\<^verbatim>\<open>dtype.kind == "f"\<close>\<close>

definition is_float :: "dtype \<Rightarrow> bool" where
  "is_float dt = (dt = Float32 \<or> dt = Float64)"

fun bits :: "dtype \<Rightarrow> nat" where
  "bits UInt8 = 8" | "bits Int8 = 8"
| "bits UInt16 = 16" | "bits Int16 = 16"
| "bits UInt32 = 32" | "bits Int32 = 32"
| "bits UInt64 = 64" | "bits Int64 = 64"
| "bits Float32 = 32" | "bits Float64 = 64"

definition is_signed :: "dtype \<Rightarrow> bool" where
  "is_signed dt = (dt = Int8 \<or> dt = Int16 \<or> dt = Int32 \<or> dt = Int64)"

record ndarray =
  dtype :: dtype
  shape :: "nat list"
  buf :: nat
  offset :: nat

type_synonym heap = "real list list"

text \<open>The contents of an array as an external library receives them.\<close>

record pixels =
  px_dtype :: dtype
  px_shape :: "nat list"
  px_values :: "real list"

definition elems :: "heap \<Rightarrow> ndarray \<Rightarrow> real list" where
  "elems h a = take (prod_list (shape a)) (drop (offset a) (h ! buf a))"

definition snapshot :: "heap \<Rightarrow> ndarray \<Rightarrow> pixels" where
  "snapshot h a = \<lparr>px_dtype = dtype a, px_shape = shape a, px_values = elems h a\<rparr>"

text \<open>An array that lives in the store: its buffer exists and covers its extent.\<close>

definition valid_array :: "heap \<Rightarrow> ndarray \<Rightarrow> bool" where
  "valid_array h a =
     (buf a < length h \<and> offset a + prod_list (shape a) \<le> length (h ! buf a))"

definition new_array :: "dtype \<Rightarrow> nat list \<Rightarrow> real list \<Rightarrow> heap \<Rightarrow> ndarray \<times> heap" where
  "new_array dt shp vals h =
     (\<lparr>dtype = dt, shape = shp, buf = length h, offset = 0\<rparr>, h @ [vals])"

subsection \<open>Casts\<close>

text \<open>
  The binary floating-point types: 24 and 53 bits of precision, smallest normal exponents
  -126 and -1022. \<open>expo x\<close> is the exponent of \<open>x\<close>, the integer \<open>e\<close> with
  \<open>2\<^sup>e \<le> \<bar>x\<bar> < 2\<^sup>e\<^sup>+\<^sup>1\<close>; \<open>fl dt x\<close> rounds \<open>x\<close> to the nearest multiple of the
  spacing of the type at \<open>x\<close>, ties to the even multiple.
\<close>

definition precision :: "dtype \<Rightarrow> nat" where
  "precision dt = (if dt = Float32 then 24 else 53)"

definition min_exponent :: "dtype \<Rightarrow> int" where
  "min_exponent dt = (if dt = Float32 then - 126 else - 1022)"

definition expo :: "real \<Rightarrow> int" where
  "expo x =
     (if 1 \<le> \<bar>x\<bar> then bitlen \<lfloor>\<bar>x\<bar>\<rfloor> - 1 else - bitlen (\<lceil>1 / \<bar>x\<bar>\<rceil> - 1))"

definition pow2 :: "int \<Rightarrow> real" where
  "pow2 e = (if 0 \<le> e then 2 ^ nat e else 1 / 2 ^ nat (- e))"

definition round_half_even :: "real \<Rightarrow> int" where
  "round_half_even x =
     (let f = \<lfloor>x\<rfloor>
      in if x - of_int f < 1 / 2 then f
         else if 1 / 2 < x - of_int f then f + 1
         else if even f then f else f + 1)"

definition fl :: "dtype \<Rightarrow> real \<Rightarrow> real" where
  "fl dt x =
     (let e = max (expo x) (min_exponent dt) - (int (precision dt) - 1)
      in of_int (round_half_even (x / pow2 e)) * pow2 e)"

text \<open>The largest finite 32-bit floating-point number.\<close>

definition float32_max :: real where
  "float32_max = (2 ^ 24 - 1) * 2 ^ 104"

text \<open>
  \<^verbatim>\<open>astype\<close> to an integer type drops the fraction (towards zero) and keeps the low
  bits, two's complement for a signed type; to a floating-point type it rounds.
\<close>

definition trunc :: "real \<Rightarrow> int" where
  "trunc v = (if 0 \<le> v then \<lfloor>v\<rfloor> else \<lceil>v\<rceil>)"

definition int_wrap :: "dtype \<Rightarrow> int \<Rightarrow> int" where
  "int_wrap dt i =
     (if is_signed dt
      then (i + 2 ^ (bits dt - 1)) mod 2 ^ bits dt - 2 ^ (bits dt - 1)
      else i mod 2 ^ bits dt)"

definition cast_to :: "dtype \<Rightarrow> real \<Rightarrow> real" where
  "cast_to dt v = (if is_float dt then fl dt v else of_int (int_wrap dt (trunc v)))"

subsection \<open>The NumPy operations the scripts call\<close>

text \<open>\<^verbatim>\<open>np.zeros_like(a, dtype=dt)\<close>\<close>

definition np_zeros_like :: "ndarray \<Rightarrow> dtype \<Rightarrow> heap \<Rightarrow> ndarray \<times> heap" where
  "np_zeros_like a dt h = new_array dt (shape a) (map (\<lambda>_. 0) (elems h a)) h"

text \<open>\<^verbatim>\<open>a.astype(dt)\<close>: always a copy.\<close>

definition astype :: "ndarray \<Rightarrow> dtype \<Rightarrow> heap \<Rightarrow> ndarray \<times> heap" where
  "astype a dt h = new_array dt (shape a) (map (cast_to dt) (elems h a)) h"

text \<open>
  \<^verbatim>\<open>a - c\<close> and \<^verbatim>\<open>a / c\<close> for a floating-point array and a 64-bit floating-point
  scalar \<open>c\<close> (a value that \<^verbatim>\<open>np.percentile\<close> returned): computed in 64 bits.
\<close>

definition np_sub :: "ndarray \<Rightarrow> real \<Rightarrow> heap \<Rightarrow> ndarray \<times> heap" where
  "np_sub a c h = new_array Float64 (shape a) (map (\<lambda>x. fl Float64 (x - c)) (elems h a)) h"

definition np_div :: "ndarray \<Rightarrow> real \<Rightarrow> heap \<Rightarrow> ndarray \<times> heap" where
  "np_div a c h = new_array Float64 (shape a) (map (\<lambda>x. fl Float64 (x / c)) (elems h a)) h"

text \<open>
  \<^verbatim>\<open>a * c\<close> for an array and a Python float: computed in the array's type when that is
  a floating-point type, in 64 bits otherwise.
\<close>

definition np_mul :: "ndarray \<Rightarrow> real \<Rightarrow> heap \<Rightarrow> ndarray \<times> heap" where
  "np_mul a c h =
     (let dt = (if is_float (dtype a) then dtype a else Float64)
      in new_array dt (shape a) (map (\<lambda>x. fl dt (x * c)) (elems h a)) h)"

text \<open>\<^verbatim>\<open>np.clip(a, lo, hi)\<close> is \<^verbatim>\<open>minimum(maximum(a, lo), hi)\<close>, in a new array.\<close>

definition np_clip :: "ndarray \<Rightarrow> real \<Rightarrow> real \<Rightarrow> heap \<Rightarrow> ndarray \<times> heap" where
  "np_clip a lo hi h =
     new_array (dtype a) (shape a) (map (\<lambda>x. min (max x lo) hi) (elems h a)) h"

section \<open>reader.py\<close>

subsection \<open>percentile_contrast\<close>

text \<open>
  \<^verbatim>\<open>np.percentile\<close> is a parameter: \<open>percentile xs q\<close> is the \<open>q\<close>-th percentile of the
  elements \<open>xs\<close>, a 64-bit floating-point number. The defaults \<^verbatim>\<open>low=1, high=99\<close> are
  passed by the callers.
\<close>

definition percentile_contrast ::
  "(real list \<Rightarrow> real \<Rightarrow> real) \<Rightarrow> ndarray \<Rightarrow> real \<Rightarrow> real \<Rightarrow> heap \<Rightarrow> ndarray \<times> heap" where
  "percentile_contrast percentile img2d low high h =
     (let p_low = percentile (elems h img2d) low;
          p_high = percentile (elems h img2d) high;
          (img_disp, h1) =
            (if p_high = p_low then np_zeros_like img2d Float32 h
             else (let (a, ha) = astype img2d Float32 h;
                       (b, hb) = np_sub a p_low ha
                   in np_div b (fl Float64 (p_high - p_low)) hb))
      in np_clip img_disp 0 1 h1)"

subsection \<open>Effects\<close>

text \<open>
  Everything else the scripts do is a call into a library (matplotlib, tifffile, napari)
  or a line on standard output. The world is the store and the sequence of those calls,
  each with the array object it was given and the contents of that array at the time.
\<close>

datatype error =
  IndexError | KeyError string | ValueError | TypeError | ZeroDivisionError
| AxisError | FileNotFoundError

datatype printed =
  Str string | Shape "nat list" | Dtype dtype | Num real | Count nat
| Text "string option" | Scale "real \<times> real \<times> real"

datatype call =
  Mkdir string
| Imshow ndarray pixels
| Title string
| Axis_off
| Plt_show
| Imsave string ndarray pixels
| Imwrite string ndarray pixels
| Print "printed list"
| Set_array ndarray pixels
| Set_title string
| FuncAnimation "int list" real
| Napari_Viewer
| Add_image ndarray pixels string "real \<times> real \<times> real" "real \<times> real" string
| Napari_run

record world =
  heap :: heap
  trace :: "call list"

definition emit :: "call list \<Rightarrow> world \<Rightarrow> world" where
  "emit cs w = w\<lparr>trace := trace w @ cs\<rparr>"

subsection \<open>Formatting\<close>

definition digit_char :: "nat \<Rightarrow> char" where
  "digit_char d = ''0123456789'' ! (d mod 10)"

fun str_nat :: "nat \<Rightarrow> string" where
  "str_nat n = (if n < 10 then [digit_char n] else str_nat (n div 10) @ [digit_char (n mod 10)])"

declare str_nat.simps [simp del]

definition str_int :: "int \<Rightarrow> string" where
  "str_int i = (if i < 0 then CHR ''-'' # str_nat (nat (- i)) else str_nat (nat i))"

text \<open>The format \<^verbatim>\<open>{n:04d}\<close> of a number that is not negative.\<close>

definition pad4 :: "nat \<Rightarrow> string" where
  "pad4 n = replicate (4 - length (str_nat n)) CHR ''0'' @ str_nat n"

text \<open>\<^verbatim>\<open>save_dir / name\<close>\<close>

definition path_join :: "string \<Rightarrow> string \<Rightarrow> string" where
  "path_join d name = d @ ''/'' @ name"

subsection \<open>show_frame\<close>

text \<open>
  \<^verbatim>\<open>imshow\<close> takes an array of shape (M, N), or of shape (M, N, 1), (M, N, 3) or
  (M, N, 4); for any other shape it raises \<^verbatim>\<open>TypeError\<close>.
\<close>

definition image_shape_ok :: "nat list \<Rightarrow> bool" where
  "image_shape_ok shp =
     (length shp = 2 \<or> (length shp = 3 \<and> (last shp = 1 \<or> last shp = 3 \<or> last shp = 4)))"

definition show_frame ::
  "(real list \<Rightarrow> real \<Rightarrow> real) \<Rightarrow> ndarray \<Rightarrow> string \<Rightarrow> world \<Rightarrow> (error + unit) \<times> world" where
  "show_frame percentile frame2d title w =
     (let (img_disp01, h1) = percentile_contrast percentile frame2d 1 99 (heap w);
          w1 = w\<lparr>heap := h1\<rparr>
      in if image_shape_ok (shape img_disp01)
         then (Inr (),
               emit [Imshow img_disp01 (snapshot h1 img_disp01), Title title, Axis_off, Plt_show]
                 w1)
         else (Inl TypeError, w1))"

subsection \<open>save_as_tiff\<close>

definition save_as_tiff :: "ndarray \<Rightarrow> string \<Rightarrow> dtype \<Rightarrow> world \<Rightarrow> world" where
  "save_as_tiff img2d_or_3d out_path dt w =
     (let arr = img2d_or_3d;
          (arr_to_save, h1) =
            (if dtype arr \<noteq> dt then
               (if is_float (dtype arr) then
                  (let (a, ha) = np_mul arr 65535 (heap w);
                       (b, hb) = np_clip a 0 65535 ha
                   in astype b UInt16 hb)
                else astype arr dt (heap w))
             else (arr, heap w))
      in emit [Imwrite out_path arr_to_save (snapshot h1 arr_to_save)] (w\<lparr>heap := h1\<rparr>))"

subsection \<open>Indexing and projections\<close>

text \<open>The view of frame \<open>t\<close>: the same buffer, one axis less.\<close>

definition frame_view :: "ndarray \<Rightarrow> nat \<Rightarrow> ndarray" where
  "frame_view data t =
     \<lparr>dtype = dtype data, shape = tl (shape data), buf = buf data,
      offset = offset data + t * prod_list (tl (shape data))\<rparr>"

text \<open>\<^verbatim>\<open>data[t, :, :]\<close> for \<open>t\<close> that is not negative.\<close>

definition getitem_frame :: "ndarray \<Rightarrow> nat \<Rightarrow> error + ndarray" where
  "getitem_frame data t =
     (if length (shape data) < 3 then Inl IndexError
      else if t < hd (shape data) then Inr (frame_view data t)
      else Inl IndexError)"

text \<open>\<^verbatim>\<open>data[i]\<close>: a negative index counts from the end.\<close>

definition getitem :: "ndarray \<Rightarrow> int \<Rightarrow> error + ndarray" where
  "getitem data i =
     (case shape data of
        [] \<Rightarrow> Inl IndexError
      | n # _ \<Rightarrow>
          (let j = (if i < 0 then int n + i else i)
           in if 0 \<le> j \<and> j < int n then Inr (frame_view data (nat j)) else Inl IndexError))"

text \<open>
  \<^verbatim>\<open>np.mean(data, axis=0)\<close>: the mean of the \<open>n\<close> frames, element by element, in
  floating point (64-bit for an integer stack). The mean is the exact one: the rounding
  of NumPy's accumulation is not followed. For \<open>n = 0\<close> NumPy returns NaNs, for which
  the model has no value; \<^verbatim>\<open>summarize_movie\<close> does not get there.
\<close>

definition np_mean_axis0 :: "ndarray \<Rightarrow> heap \<Rightarrow> error + ndarray \<times> heap" where
  "np_mean_axis0 data h =
     (case shape data of
        [] \<Rightarrow> Inl AxisError
      | n # rest \<Rightarrow>
          (let m = prod_list rest; xs = elems h data
           in Inr (new_array (if is_float (dtype data) then dtype data else Float64) rest
                     (map (\<lambda>j. (\<Sum>t\<leftarrow>[0..<n]. xs ! (t * m + j)) / real n) [0..<m]) h)))"

text \<open>\<^verbatim>\<open>np.max(data, axis=0)\<close>: the largest of the \<open>n\<close> frames, element by element.\<close>

definition np_max_axis0 :: "ndarray \<Rightarrow> heap \<Rightarrow> error + ndarray \<times> heap" where
  "np_max_axis0 data h =
     (case shape data of
        [] \<Rightarrow> Inl AxisError
      | n # rest \<Rightarrow>
          (let m = prod_list rest; xs = elems h data
           in if n = 0 then Inl ValueError
              else Inr (new_array (dtype data) rest
                     (map (\<lambda>j. fold max (map (\<lambda>t. xs ! (t * m + j)) [1..<n]) (xs ! j)) [0..<m])
                     h)))"

subsection \<open>summarize_movie\<close>

text \<open>
  The source returns nothing; the model returns the local variables, so that they can
  be spoken about.
\<close>

record summary =
  the_mid_t :: nat
  the_mid_frame :: ndarray
  the_mean_proj :: ndarray
  the_max_proj :: ndarray

definition summarize_movie ::
  "(real list \<Rightarrow> real \<Rightarrow> real) \<Rightarrow> ndarray \<Rightarrow> string \<Rightarrow> world \<Rightarrow> (error + summary) \<times> world" where
  "summarize_movie percentile data save_dir w =
     (let w0 = emit [Mkdir save_dir] w
      in case shape data of
           [] \<Rightarrow> (Inl IndexError, w0)
         | n_frames # _ \<Rightarrow>
             (let mid_t = n_frames div 2
              in case getitem_frame data mid_t of
                   Inl e \<Rightarrow> (Inl e, w0)
                 | Inr mid_frame \<Rightarrow>
                     (case show_frame percentile mid_frame
                             (''Frame '' @ str_nat mid_t @ ''/'' @ str_nat n_frames) w0 of
                        (Inl e, w1) \<Rightarrow> (Inl e, w1)
                      | (Inr _, w1) \<Rightarrow>
                          (let (c, h2) = percentile_contrast percentile mid_frame 1 99 (heap w1);
                               w2 = emit [Imsave (path_join save_dir
                                                    (''frame_'' @ pad4 mid_t @ ''.png''))
                                            c (snapshot h2 c)] (w1\<lparr>heap := h2\<rparr>)
                           in case np_mean_axis0 data (heap w2) of
                                Inl e \<Rightarrow> (Inl e, w2)
                              | Inr (mean_proj, h3) \<Rightarrow>
                                  (case np_max_axis0 data h3 of
                                     Inl e \<Rightarrow> (Inl e, w2\<lparr>heap := h3\<rparr>)
                                   | Inr (max_proj, h4) \<Rightarrow>
                                       (case show_frame percentile mean_proj ''Mean across time''
                                               (w2\<lparr>heap := h4\<rparr>) of
                                          (Inl e, w4) \<Rightarrow> (Inl e, w4)
                                        | (Inr _, w4) \<Rightarrow>
                                            (case show_frame percentile max_proj
                                                    ''Max across time'' w4 of
                                               (Inl e, w5) \<Rightarrow> (Inl e, w5)
                                             | (Inr _, w5) \<Rightarrow>
                                                 (let (cmean, h6) =
                                                        percentile_contrast percentile mean_proj
                                                          1 99 (heap w5);
                                                      w6 = emit [Imsave (path_join save_dir
                                                                   ''mean_projection.png'')
                                                                   cmean (snapshot h6 cmean)]
                                                             (w5\<lparr>heap := h6\<rparr>);
                                                      (cmax, h7) =
                                                        percentile_contrast percentile max_proj
                                                          1 99 (heap w6);
                                                      w7 = emit [Imsave (path_join save_dir
                                                                   ''max_projection.png'')
                                                                   cmax (snapshot h7 cmax)]
                                                             (w6\<lparr>heap := h7\<rparr>);
                                                      w8 = save_as_tiff mean_proj
                                                             (path_join save_dir
                                                                ''mean_projection.tif'')
                                                             UInt16 w7;
                                                      w9 = save_as_tiff max_proj
                                                             (path_join save_dir
                                                                ''max_projection.tif'')
                                                             UInt16 w8
                                                  in (Inr \<lparr>the_mid_t = mid_t,
                                                            the_mid_frame = mid_frame,
                                                            the_mean_proj = mean_proj,
                                                            the_max_proj = max_proj\<rparr>,
                                                      emit [Print [Str (''[OK] Saved previews to ''
                                                                          @ save_dir)]] w9)))))))))"

subsection \<open>play_movie\<close>

text \<open>
  \<^verbatim>\<open>stop or data.shape[0]\<close>: the second operand is evaluated, and taken, when \<open>stop\<close>
  is \<^verbatim>\<open>None\<close> or \<open>0\<close>.
\<close>

definition stop_or_length :: "int option \<Rightarrow> ndarray \<Rightarrow> error + int" where
  "stop_or_length stop data =
     (case stop of
        Some s \<Rightarrow>
          (if s \<noteq> 0 then Inr s
           else (case shape data of [] \<Rightarrow> Inl IndexError | n # _ \<Rightarrow> Inr (int n)))
      | None \<Rightarrow> (case shape data of [] \<Rightarrow> Inl IndexError | n # _ \<Rightarrow> Inr (int n)))"

text \<open>The callback \<^verbatim>\<open>update(i)\<close> of the animation.\<close>

definition play_movie_update ::
  "(real list \<Rightarrow> real \<Rightarrow> real) \<Rightarrow> ndarray \<Rightarrow> int \<Rightarrow> world \<Rightarrow> (error + unit) \<times> world" where
  "play_movie_update percentile data i w =
     (case getitem data i of
        Inl e \<Rightarrow> (Inl e, w)
      | Inr fr \<Rightarrow>
          (let (img, h1) = percentile_contrast percentile fr 1 99 (heap w)
           in (Inr (),
               emit [Set_array img (snapshot h1 img),
                     Set_title (''Frame '' @ str_int (i + 1) @ ''/'' @ str_nat (hd (shape data)))]
                 (w\<lparr>heap := h1\<rparr>))))"

text \<open>One pass of the animation over its frames; it stops at the first error.\<close>

fun run_frames ::
  "(int \<Rightarrow> world \<Rightarrow> (error + unit) \<times> world) \<Rightarrow> int list \<Rightarrow> world \<Rightarrow> (error + unit) \<times> world" where
  "run_frames upd [] w = (Inr (), w)"
| "run_frames upd (i # rest) w =
     (case upd i w of
        (Inl e, w') \<Rightarrow> (Inl e, w')
      | (Inr _, w') \<Rightarrow> run_frames upd rest w')"

text \<open>
  \<^verbatim>\<open>play_movie(data, start=0, stop=None, fps=30)\<close>; \<^verbatim>\<open>range(start, stop)\<close> is
  \<open>[start..stop - 1]\<close>. After \<^verbatim>\<open>plt.show()\<close> the animation runs; the model follows
  its first pass. The frames it sets have the shape of the frame \<^verbatim>\<open>imshow\<close> accepted.
\<close>

definition play_movie ::
  "(real list \<Rightarrow> real \<Rightarrow> real) \<Rightarrow> ndarray \<Rightarrow> int \<Rightarrow> int option \<Rightarrow> int \<Rightarrow> world
     \<Rightarrow> (error + unit) \<times> world" where
  "play_movie percentile data start stop fps w =
     (case stop_or_length stop data of
        Inl e \<Rightarrow> (Inl e, w)
      | Inr stop' \<Rightarrow>
          (case getitem data start of
             Inl e \<Rightarrow> (Inl e, w)
           | Inr fr \<Rightarrow>
               (let (img, h1) = percentile_contrast percentile fr 1 99 (heap w)
                in if \<not> image_shape_ok (shape img) then (Inl TypeError, w\<lparr>heap := h1\<rparr>)
                   else
                     (let w1 = emit [Imshow img (snapshot h1 img), Axis_off] (w\<lparr>heap := h1\<rparr>)
                      in if fps = 0 then (Inl ZeroDivisionError, w1)
                         else run_frames (play_movie_update percentile data) [start..stop' - 1]
                                (emit [FuncAnimation [start..stop' - 1] (1000 / real_of_int fps),
                                       Plt_show] w1)))))"

subsection \<open>load_tiff_stack and the driver\<close>

datatype tag_value = Rational int int | Ascii string | Number int

text \<open>A decoded TIFF file: the pixel data, the tags of its first page, the description.\<close>

record tiff_file =
  tif_pixels :: pixels
  tif_tags :: "string \<rightharpoonup> tag_value"
  tif_description :: "string option"

text \<open>\<^verbatim>\<open>tif.asarray()\<close>\<close>

definition asarray :: "tiff_file \<Rightarrow> heap \<Rightarrow> ndarray \<times> heap" where
  "asarray tif h =
     new_array (px_dtype (tif_pixels tif)) (px_shape (tif_pixels tif))
       (px_values (tif_pixels tif)) h"

definition load_tiff_stack ::
  "(string \<rightharpoonup> tiff_file) \<Rightarrow> string \<Rightarrow> world
     \<Rightarrow> (error + ndarray \<times> (string \<rightharpoonup> tag_value) \<times> string option) \<times> world" where
  "load_tiff_stack fs path w =
     (case fs path of
        None \<Rightarrow> (Inl FileNotFoundError, w)
      | Some tif \<Rightarrow>
          (let (data, h1) = asarray tif (heap w);
               meta = tif_tags tif;
               desc = tif_description tif
           in (Inr (data, meta, desc), w\<lparr>heap := h1\<rparr>)))"

text \<open>\<^verbatim>\<open>str(desc).lower()\<close>, on ASCII.\<close>

definition str_of :: "string option \<Rightarrow> string" where
  "str_of desc = (case desc of None \<Rightarrow> ''None'' | Some s \<Rightarrow> s)"

definition lower_char :: "char \<Rightarrow> char" where
  "lower_char c =
     (case map_of (zip ''ABCDEFGHIJKLMNOPQRSTUVWXYZ'' ''abcdefghijklmnopqrstuvwxyz'') c of
        Some l \<Rightarrow> l
      | None \<Rightarrow> c)"

definition lower :: "string \<Rightarrow> string" where
  "lower s = map lower_char s"

text \<open>
  The message about axis 0 (lines 153 to 158): \<^verbatim>\<open>"frames" in meta\<close> asks whether
  the dictionary has the key.
\<close>

definition axis0_message :: "string option \<Rightarrow> (string \<rightharpoonup> tag_value) \<Rightarrow> nat \<Rightarrow> string" where
  "axis0_message desc meta axis0 =
     (if sublist ''frames'' (lower (str_of desc)) \<or> meta ''frames'' \<noteq> None
      then ''Interpreting axis 0 ('' @ str_nat axis0 @ '') as TIME (T).''
      else if sublist ''slices'' (lower (str_of desc))
      then ''Interpreting axis 0 ('' @ str_nat axis0 @ '') as DEPTH (Z).''
      else ''Axis 0 is '' @ str_nat axis0 @ '' planes. Could be time or z; we guess TIME.'')"

text \<open>\<^verbatim>\<open>data.min()\<close> and \<^verbatim>\<open>data.max()\<close>\<close>

definition np_min :: "heap \<Rightarrow> ndarray \<Rightarrow> error + real" where
  "np_min h a = (case elems h a of [] \<Rightarrow> Inl ValueError | x # xs \<Rightarrow> Inr (fold min xs x))"

definition np_max :: "heap \<Rightarrow> ndarray \<Rightarrow> error + real" where
  "np_max h a = (case elems h a of [] \<Rightarrow> Inl ValueError | x # xs \<Rightarrow> Inr (fold max xs x))"

definition reader_tiff_path :: string where
  "reader_tiff_path =
     ''/Volumes/VCN_Connectome_DC015901_ReadWrite/ExpansionMicroscopy/2Photon/10212025/''
     @ ''Conc_VCNSag_SI2ST2_927_1024_30FPS_z500nm_8bit_removedOutliers.tif''"

definition main ::
  "(string \<rightharpoonup> tiff_file) \<Rightarrow> (real list \<Rightarrow> real \<Rightarrow> real) \<Rightarrow> world \<Rightarrow> (error + unit) \<times> world" where
  "main fs percentile w =
     (case load_tiff_stack fs reader_tiff_path w of
        (Inl e, w1) \<Rightarrow> (Inl e, w1)
      | (Inr (data, meta, desc), w1) \<Rightarrow>
          (let w2 = emit [Print [Str ''Data shape:'', Shape (shape data)],
                          Print [Str ''Data dtype:'', Dtype (dtype data)]] w1
           in case np_min (heap w2) data of
                Inl e \<Rightarrow> (Inl e, w2)
              | Inr lo \<Rightarrow>
                  (case np_max (heap w2) data of
                     Inl e \<Rightarrow> (Inl e, w2)
                   | Inr hi \<Rightarrow>
                       (let w3 = emit [Print [Str ''Min/Max intensity:'', Num lo, Num hi],
                                       Print [Str (CHR 0x0A # ''--- IMAGEJ DESCRIPTION ---'')],
                                       Print [Text desc]] w2
                        in if length (shape data) = 3 then
                             (let axis0 = hd (shape data);
                                  w4 = emit [Print [Str (axis0_message desc meta axis0)]] w3
                              in case summarize_movie percentile data ''previews'' w4 of
                                   (Inl e, w5) \<Rightarrow> (Inl e, w5)
                                 | (Inr _, w5) \<Rightarrow> (Inr (), w5))
                           else (Inr (),
                                 emit [Print [Str ''Unexpected dimensionality:'',
                                              Count (length (shape data))]] w3)))))"

section \<open>viewer.py\<close>

text \<open>Python's \<^verbatim>\<open>/\<close> raises on a zero divisor, for integers and for floats.\<close>

definition truediv :: "real \<Rightarrow> real \<Rightarrow> error + real" where
  "truediv a b = (if b = 0 then Inl ZeroDivisionError else Inr (a / b))"

text \<open>
  \<^verbatim>\<open>xres[0] / xres[1]\<close> for a tag value: a rational tag is the pair of its numerator
  and denominator. A text has no such quotient, and a number has no items.
\<close>

definition pair_quotient :: "tag_value \<Rightarrow> error + real" where
  "pair_quotient v =
     (case v of
        Rational num den \<Rightarrow> truediv (real_of_int num) (real_of_int den)
      | Ascii s \<Rightarrow> (if length s < 2 then Inl IndexError else Inl TypeError)
      | Number _ \<Rightarrow> Inl TypeError)"

definition load_tiff ::
  "(string \<rightharpoonup> tiff_file) \<Rightarrow> (real list \<Rightarrow> real \<Rightarrow> real) \<Rightarrow> string \<Rightarrow> world
     \<Rightarrow> (error + unit) \<times> world" where
  "load_tiff fs percentile tif_path w =
     (case fs tif_path of
        None \<Rightarrow> (Inl FileNotFoundError, w)
      | Some tif \<Rightarrow>
          (let (data, h1) = asarray tif (heap w);
               w1 = w\<lparr>heap := h1\<rparr>;
               tags = tif_tags tif
           in case tags ''XResolution'' of
                None \<Rightarrow> (Inl (KeyError ''XResolution''), w1)
              | Some xres \<Rightarrow>
                  (case tags ''YResolution'' of
                     None \<Rightarrow> (Inl (KeyError ''YResolution''), w1)
                   | Some yres \<Rightarrow>
                       (case pair_quotient xres of
                          Inl e \<Rightarrow> (Inl e, w1)
                        | Inr x_ppunit \<Rightarrow>
                            (case pair_quotient yres of
                               Inl e \<Rightarrow> (Inl e, w1)
                             | Inr y_ppunit \<Rightarrow>
                                 (case truediv 1 x_ppunit of
                                    Inl e \<Rightarrow> (Inl e, w1)
                                  | Inr px_size_x \<Rightarrow>
                                      (case truediv 1 y_ppunit of
                                         Inl e \<Rightarrow> (Inl e, w1)
                                       | Inr px_size_y \<Rightarrow>
                                           (let scale = (1, px_size_y, px_size_x)
                                            in (Inr (),
                                                emit [Print [Str ''data shape:'', Shape (shape data)],
                                                      Print [Str ''scale going to napari:'',
                                                             Scale scale],
                                                      Napari_Viewer,
                                                      Add_image data (snapshot h1 data) ''2p_stack''
                                                        scale
                                                        (percentile (elems h1 data) 1,
                                                         percentile (elems h1 data) 99)
                                                        ''gray'',
                                                      Napari_run] w1)))))))))"

section \<open>A percentile function\<close>

text \<open>
  NumPy's default percentile (linear interpolation between the two nearest ranks of the
  sorted data), for data that is not empty. The theorems below hold for every function
  in its place; the examples use this one.
\<close>

definition percentile_linear :: "real list \<Rightarrow> real \<Rightarrow> real" where
  "percentile_linear xs q =
     (let s = sort xs;
          vi = q / 100 * (real (length s) - 1);
          lo = nat \<lfloor>vi\<rfloor>;
          hi = min (lo + 1) (length s - 1)
      in s ! lo + (s ! hi - s ! lo) * (vi - real lo))"

section \<open>What is displayed\<close>

text \<open>
  The contents of the image that \<^verbatim>\<open>percentile_contrast(img)\<close> returns, with the default
  percentiles, when it runs in the store \<open>h\<close>.
\<close>

definition contrast_pixels :: "(real list \<Rightarrow> real \<Rightarrow> real) \<Rightarrow> ndarray \<Rightarrow> heap \<Rightarrow> pixels" where
  "contrast_pixels percentile img h =
     (let (out, h') = percentile_contrast percentile img 1 99 h in snapshot h' out)"

section \<open>Freshness\<close>

text \<open>
  The arrays a library call was given, and the calls all of whose arrays live in buffers
  at address \<open>k\<close> or above. A run from \<open>w\<close> to \<open>w'\<close> \<^emph>\<open>extends\<close> the world above \<open>k\<close> when
  the buffers of \<open>w\<close> are still there, unchanged, and the calls it added are given only
  arrays in buffers at \<open>k\<close> or above.
\<close>

fun call_arrays :: "call \<Rightarrow> ndarray list" where
  "call_arrays (Imshow a _) = [a]"
| "call_arrays (Imsave _ a _) = [a]"
| "call_arrays (Imwrite _ a _) = [a]"
| "call_arrays (Set_array a _) = [a]"
| "call_arrays (Add_image a _ _ _ _ _) = [a]"
| "call_arrays _ = []"

definition fresh_calls :: "nat \<Rightarrow> call list \<Rightarrow> bool" where
  "fresh_calls k cs = list_all (\<lambda>c. list_all (\<lambda>a. k \<le> buf a) (call_arrays c)) cs"

definition extends :: "nat \<Rightarrow> world \<Rightarrow> world \<Rightarrow> bool" where
  "extends k w w' =
     (prefix (heap w) (heap w') \<and> prefix (trace w) (trace w') \<and>
      fresh_calls k (drop (length (trace w)) (trace w')))"

section \<open>Properties\<close>

subsection \<open>The store under the NumPy operations\<close>

lemma length_elems_le: "length (elems h a) \<le> prod_list (shape a)"
  by (simp add: elems_def)

lemma length_elems_valid: "valid_array h a \<Longrightarrow> length (elems h a) = prod_list (shape a)"
  by (auto simp: valid_array_def elems_def)

lemma new_array_map:
  assumes "new_array dt (shape a) (map g (elems h a)) h = (r, h')"
  shows "dtype r = dt" "shape r = shape a" "buf r = length h" "offset r = 0"
        "h' = h @ [map g (elems h a)]" "elems h' r = map g (elems h a)"
proof -
  from assms show r: "dtype r = dt" "shape r = shape a" "buf r = length h" "offset r = 0"
    and h': "h' = h @ [map g (elems h a)]"
    by (auto simp: new_array_def)
  have "length (map g (elems h a)) \<le> prod_list (shape a)"
    by (simp add: length_elems_le)
  then show "elems h' r = map g (elems h a)"
    using r h' by (simp add: elems_def)
qed

lemmas np_zeros_like_res = new_array_map [where g = "\<lambda>_. 0", folded np_zeros_like_def]
lemmas astype_res = new_array_map [where g = "cast_to dt" and dt = dt for dt, folded astype_def]
lemmas np_sub_res =
  new_array_map [where g = "\<lambda>x. fl Float64 (x - c)" and dt = Float64 for c, folded np_sub_def]
lemmas np_div_res =
  new_array_map [where g = "\<lambda>x. fl Float64 (x / c)" and dt = Float64 for c, folded np_div_def]
lemmas np_clip_res =
  new_array_map [where g = "\<lambda>x. min (max x lo) hi" and dt = "dtype a" and a = a for lo hi a,
    folded np_clip_def]

lemma np_mul_res:
  assumes "np_mul a c h = (r, h')" and "dt = (if is_float (dtype a) then dtype a else Float64)"
  shows "dtype r = dt" "shape r = shape a" "buf r = length h" "offset r = 0"
        "h' = h @ [map (\<lambda>x. fl dt (x * c)) (elems h a)]"
        "elems h' r = map (\<lambda>x. fl dt (x * c)) (elems h a)"
proof -
  have "new_array dt (shape a) (map (\<lambda>x. fl dt (x * c)) (elems h a)) h = (r, h')"
    using assms by (simp add: np_mul_def Let_def)
  from new_array_map [OF this]
  show "dtype r = dt" "shape r = shape a" "buf r = length h" "offset r = 0"
    "h' = h @ [map (\<lambda>x. fl dt (x * c)) (elems h a)]"
    "elems h' r = map (\<lambda>x. fl dt (x * c)) (elems h a)" .
qed

subsection \<open>Rounding\<close>

lemma round_half_even_of_int [simp]: "round_half_even (of_int k) = k"
  by (simp add: round_half_even_def)

lemma round_half_even_numeral [simp]: "round_half_even (numeral k) = numeral k"
  using round_half_even_of_int [of "numeral k"] by simp

lemma round_half_even_bounds: "\<lfloor>z\<rfloor> \<le> round_half_even z" "round_half_even z \<le> \<lceil>z\<rceil>"
proof -
  show "\<lfloor>z\<rfloor> \<le> round_half_even z"
    by (simp add: round_half_even_def Let_def)
  have "\<lceil>z\<rceil> = \<lfloor>z\<rfloor> + 1" if "z \<noteq> of_int \<lfloor>z\<rfloor>"
    using that by (simp add: ceiling_altdef)
  then show "round_half_even z \<le> \<lceil>z\<rceil>"
    by (auto simp: round_half_even_def Let_def)
qed

lemma pow2_nonpos: "e \<le> 0 \<Longrightarrow> pow2 e = 1 / 2 ^ nat (- e)"
  by (cases "e = 0") (simp_all add: pow2_def)

lemma expo_le:
  assumes "0 \<le> y" and "y < 2 ^ p" and "1 \<le> p"
  shows "expo y \<le> int p - 1"
proof (cases "1 \<le> y")
  case True
  have "\<lfloor>y\<rfloor> < 2 ^ p"
    using assms(2) by (simp add: floor_less_iff)
  then have "bitlen \<lfloor>y\<rfloor> \<le> int p"
    by (simp add: bitlen_le_iff_power)
  then show ?thesis
    using True assms(1) by (simp add: expo_def)
next
  case False
  have "0 \<le> bitlen (\<lceil>1 / y\<rceil> - 1)"
    by (rule bitlen_nonneg)
  then show ?thesis
    using False assms(1,3) by (simp add: expo_def)
qed

text \<open>
  Below \<open>2\<^sup>p\<close> the spacing of a type of precision \<open>p\<close> is at most 1, so the integers are
  among its numbers and rounding does not pass the integers next to \<open>y\<close>.
\<close>

lemma fl_between:
  assumes "0 \<le> y" and "y < 2 ^ precision dt"
  shows "of_int \<lfloor>y\<rfloor> \<le> fl dt y" and "fl dt y \<le> of_int \<lceil>y\<rceil>"
proof -
  define e where "e = max (expo y) (min_exponent dt) - (int (precision dt) - 1)"
  define j where "j = nat (- e)"
  have "min_exponent dt \<le> int (precision dt) - 1"
    by (simp add: min_exponent_def precision_def)
  moreover have "1 \<le> precision dt"
    by (simp add: precision_def)
  ultimately have "e \<le> 0"
    using expo_le [OF assms] by (simp add: e_def)
  then have p: "pow2 e = 1 / 2 ^ j"
    by (simp add: pow2_nonpos j_def)
  have f: "fl dt y = of_int (round_half_even (y * 2 ^ j)) / 2 ^ j"
    by (simp add: fl_def Let_def e_def [symmetric] p)
  have "of_int (\<lfloor>y\<rfloor> * 2 ^ j) \<le> y * 2 ^ j"
    by simp
  then have "\<lfloor>y\<rfloor> * 2 ^ j \<le> \<lfloor>y * 2 ^ j\<rfloor>"
    by (simp only: le_floor_iff)
  also have "\<dots> \<le> round_half_even (y * 2 ^ j)"
    by (rule round_half_even_bounds)
  finally have "real_of_int (\<lfloor>y\<rfloor> * 2 ^ j) \<le> real_of_int (round_half_even (y * 2 ^ j))"
    by (simp only: of_int_le_iff)
  then have "of_int \<lfloor>y\<rfloor> * (2 :: real) ^ j \<le> of_int (round_half_even (y * 2 ^ j))"
    by simp
  then show "of_int \<lfloor>y\<rfloor> \<le> fl dt y"
    unfolding f by (simp add: pos_le_divide_eq)
  have "y * 2 ^ j \<le> of_int (\<lceil>y\<rceil> * 2 ^ j)"
    by simp
  then have "\<lceil>y * 2 ^ j\<rceil> \<le> \<lceil>y\<rceil> * 2 ^ j"
    by (simp only: ceiling_le_iff)
  then have "round_half_even (y * 2 ^ j) \<le> \<lceil>y\<rceil> * 2 ^ j"
    using round_half_even_bounds(2) [of "y * 2 ^ j"] by linarith
  then have "real_of_int (round_half_even (y * 2 ^ j)) \<le> real_of_int (\<lceil>y\<rceil> * 2 ^ j)"
    by (simp only: of_int_le_iff)
  then have "of_int (round_half_even (y * 2 ^ j)) \<le> of_int \<lceil>y\<rceil> * (2 :: real) ^ j"
    by simp
  then show "fl dt y \<le> of_int \<lceil>y\<rceil>"
    unfolding f by (simp add: pos_divide_le_eq)
qed

lemma fl_zero [simp]: "fl dt 0 = 0"
  by (simp add: fl_def round_half_even_def)

lemma fl_one [simp]: "fl Float32 1 = 1" "fl Float64 1 = 1"
  by (simp_all add: fl_def expo_def compute_bitlen precision_def min_exponent_def pow2_def)

lemmas fl_eval =
  fl_def expo_def compute_bitlen precision_def min_exponent_def pow2_def round_half_even_def

subsection \<open>percentile_contrast\<close>

text \<open>
  C1. When the low and the high percentile of the image are equal, the result of
  \<^verbatim>\<open>percentile_contrast\<close> is a 32-bit floating-point array of the shape of the
  image whose elements are all zero.
\<close>

theorem percentile_contrast_flat:
  assumes "valid_array h img2d"
      and "percentile (elems h img2d) high = percentile (elems h img2d) low"
      and "percentile_contrast percentile img2d low high h = (out, h')"
  shows "dtype out = Float32 \<and> shape out = shape img2d \<and>
         elems h' out = replicate (prod_list (shape img2d)) 0"
proof -
  obtain z h1 where z: "np_zeros_like img2d Float32 h = (z, h1)"
    by (cases "np_zeros_like img2d Float32 h")
  from assms(2,3) z have out: "np_clip z 0 1 h1 = (out, h')"
    by (simp add: percentile_contrast_def Let_def)
  have "elems h' out = map (\<lambda>x. min (max x 0) 1) (map (\<lambda>_. 0) (elems h img2d))"
    using np_clip_res(6) [OF out] np_zeros_like_res(6) [OF z] by simp
  also have "\<dots> = replicate (prod_list (shape img2d)) 0"
    using length_elems_valid [OF assms(1)] by (simp add: map_replicate_const)
  finally show ?thesis
    using np_clip_res(1,2) [OF out] np_zeros_like_res(1,2) [OF z] by simp
qed

text \<open>A 2 by 2 image of 8-bit pixels that are all 7.\<close>

theorem percentile_contrast_flat_witness:
  "valid_array [[7, 7, 7, 7]] \<lparr>dtype = UInt8, shape = [2, 2], buf = 0, offset = 0\<rparr> \<and>
   percentile_linear (elems [[7, 7, 7, 7]] \<lparr>dtype = UInt8, shape = [2, 2], buf = 0, offset = 0\<rparr>) 99
     = percentile_linear
         (elems [[7, 7, 7, 7]] \<lparr>dtype = UInt8, shape = [2, 2], buf = 0, offset = 0\<rparr>) 1 \<and>
   dtype (fst (percentile_contrast percentile_linear
     \<lparr>dtype = UInt8, shape = [2, 2], buf = 0, offset = 0\<rparr> 1 99 [[7, 7, 7, 7]])) = Float32 \<and>
   shape (fst (percentile_contrast percentile_linear
     \<lparr>dtype = UInt8, shape = [2, 2], buf = 0, offset = 0\<rparr> 1 99 [[7, 7, 7, 7]])) = [2, 2] \<and>
   elems (snd (percentile_contrast percentile_linear
            \<lparr>dtype = UInt8, shape = [2, 2], buf = 0, offset = 0\<rparr> 1 99 [[7, 7, 7, 7]]))
     (fst (percentile_contrast percentile_linear
            \<lparr>dtype = UInt8, shape = [2, 2], buf = 0, offset = 0\<rparr> 1 99 [[7, 7, 7, 7]]))
     = [0, 0, 0, 0]"
proof -
  let ?h = "[[7, 7, 7, 7 :: real]]"
  let ?img = "\<lparr>dtype = UInt8, shape = [2, 2], buf = 0, offset = 0\<rparr>"
  have v: "valid_array ?h ?img"
    by (simp add: valid_array_def)
  have e: "percentile_linear (elems ?h ?img) 99 = percentile_linear (elems ?h ?img) 1"
    by (simp add: elems_def percentile_linear_def)
  obtain out h' where r: "percentile_contrast percentile_linear ?img 1 99 ?h = (out, h')"
    by (cases "percentile_contrast percentile_linear ?img 1 99 ?h")
  have "replicate (prod_list (shape ?img)) (0 :: real) = [0, 0, 0, 0]"
    by (simp add: numeral_eq_Suc)
  with percentile_contrast_flat [OF v e r] v e r show ?thesis
    by simp
qed

lemma percentile_contrast_stretch_elems:
  assumes "percentile (elems h img2d) high \<noteq> percentile (elems h img2d) low"
      and "percentile_contrast percentile img2d low high h = (out, h')"
  shows "shape out = shape img2d" "dtype out = Float64"
    "elems h' out =
       map (\<lambda>x. min (max (fl Float64 (fl Float64 (fl Float32 x - percentile (elems h img2d) low) /
                    fl Float64 (percentile (elems h img2d) high - percentile (elems h img2d) low)))
                  0) 1)
         (elems h img2d)"
proof -
  let ?lo = "percentile (elems h img2d) low" and ?hi = "percentile (elems h img2d) high"
  obtain a ha where a: "astype img2d Float32 h = (a, ha)"
    by (cases "astype img2d Float32 h")
  obtain b hb where b: "np_sub a ?lo ha = (b, hb)"
    by (cases "np_sub a ?lo ha")
  obtain c hc where c: "np_div b (fl Float64 (?hi - ?lo)) hb = (c, hc)"
    by (cases "np_div b (fl Float64 (?hi - ?lo)) hb")
  from assms a b c have out: "np_clip c 0 1 hc = (out, h')"
    by (simp add: percentile_contrast_def Let_def)
  show "shape out = shape img2d"
    using np_clip_res(2) [OF out] np_div_res(2) [OF c] np_sub_res(2) [OF b] astype_res(2) [OF a]
    by simp
  show "dtype out = Float64"
    using np_clip_res(1) [OF out] np_div_res(1) [OF c] by simp
  show "elems h' out =
       map (\<lambda>x. min (max (fl Float64 (fl Float64 (fl Float32 x - ?lo) / fl Float64 (?hi - ?lo)))
                  0) 1)
         (elems h img2d)"
    using np_clip_res(6) [OF out] np_div_res(6) [OF c] np_sub_res(6) [OF b] astype_res(6) [OF a]
    by (simp add: comp_def cast_to_def is_float_def)
qed

text \<open>
  C2, as stated: every element \<open>x\<close> becomes \<open>(x - p_low) / (p_high - p_low)\<close> clipped to
  \<open>[0, 1]\<close>, and an element equal to the high percentile becomes 1. In the 1 by 5 image
  of 32-bit integers below the percentiles 1 and 99 are 16777215 and 16777217. The cast
  to 32-bit floating point rounds 16777217 to 16777216, so the element at index 3, equal
  to the high percentile, becomes 1/2, where the formula gives 1.
\<close>

theorem percentile_contrast_stretch_counterexample:
  "percentile_linear [16777215, 16777215, 16777216, 16777217, 16777217] 1 = 16777215 \<and>
   percentile_linear [16777215, 16777215, 16777216, 16777217, 16777217] 99 = 16777217 \<and>
   elems [[16777215, 16777215, 16777216, 16777217, 16777217]]
     \<lparr>dtype = UInt32, shape = [1, 5], buf = 0, offset = 0\<rparr> ! 3 = 16777217 \<and>
   elems (snd (percentile_contrast percentile_linear
            \<lparr>dtype = UInt32, shape = [1, 5], buf = 0, offset = 0\<rparr> 1 99
            [[16777215, 16777215, 16777216, 16777217, 16777217]]))
     (fst (percentile_contrast percentile_linear
            \<lparr>dtype = UInt32, shape = [1, 5], buf = 0, offset = 0\<rparr> 1 99
            [[16777215, 16777215, 16777216, 16777217, 16777217]])) = [0, 0, 1 / 2, 1 / 2, 1 / 2] \<and>
   min (max ((16777217 - 16777215) / (16777217 - 16777215 :: real)) 0) 1 = 1"
proof -
  let ?xs = "[16777215, 16777215, 16777216, 16777217, 16777217 :: real]"
  let ?img = "\<lparr>dtype = UInt32, shape = [1, 5], buf = 0, offset = 0\<rparr>"
  have els: "elems [?xs] ?img = ?xs"
    by (simp add: elems_def)
  have lo: "percentile_linear ?xs 1 = 16777215"
    by (simp add: percentile_linear_def Let_def)
  have hi: "percentile_linear ?xs 99 = 16777217"
    by (simp add: percentile_linear_def Let_def)
  have ne: "percentile_linear (elems [?xs] ?img) 99 \<noteq> percentile_linear (elems [?xs] ?img) 1"
    unfolding els lo hi by simp
  obtain out h' where r: "percentile_contrast percentile_linear ?img 1 99 [?xs] = (out, h')"
    by (cases "percentile_contrast percentile_linear ?img 1 99 [?xs]")
  have c: "fl Float32 16777215 = 16777215" "fl Float32 16777216 = 16777216"
    "fl Float32 16777217 = 16777216"
    by (simp_all add: fl_eval)
  have d: "fl Float64 2 = 2" "fl Float64 (1 / 2) = 1 / 2"
    by (simp_all add: fl_eval)
  have "elems h' out = [0, 0, 1 / 2, 1 / 2, 1 / 2]"
    using percentile_contrast_stretch_elems(3) [OF ne r]
    unfolding els lo hi by (simp add: c d)
  then show ?thesis
    using r lo hi els by simp
qed

text \<open>
  C2, amended. For an image of finite numbers within the range of 32-bit floating point
  whose two percentiles differ, every element \<open>x\<close> becomes
  \<open>(float32(x) - p_low) / (p_high - p_low)\<close> clipped to \<open>[0, 1]\<close>, each operation rounded
  to 64-bit floating point. The result has the shape of the image and all its elements
  lie between 0 and 1; an element whose 32-bit value is the low percentile becomes 0 and
  an element whose 32-bit value is the high percentile becomes 1.
\<close>

theorem percentile_contrast_stretch:
  assumes "p_low = percentile (elems h img2d) low"
      and "p_high = percentile (elems h img2d) high"
      and "p_high \<noteq> p_low"
      and "d = fl Float64 (p_high - p_low)" and "d \<noteq> 0"
      and "\<forall>x \<in> set (elems h img2d). \<bar>x\<bar> \<le> float32_max"
      and "percentile_contrast percentile img2d low high h = (out, h')"
  shows "shape out = shape img2d \<and>
         elems h' out =
           map (\<lambda>x. min (max (fl Float64 (fl Float64 (fl Float32 x - p_low) / d)) 0) 1)
             (elems h img2d) \<and>
         (\<forall>v \<in> set (elems h' out). 0 \<le> v \<and> v \<le> 1) \<and>
         (\<forall>i < length (elems h img2d).
            (fl Float32 (elems h img2d ! i) = p_low \<longrightarrow> elems h' out ! i = 0) \<and>
            (fl Float32 (elems h img2d ! i) = p_high \<longrightarrow> elems h' out ! i = 1))"
proof -
  have ne: "percentile (elems h img2d) high \<noteq> percentile (elems h img2d) low"
    using assms(1-3) by simp
  note r = percentile_contrast_stretch_elems [OF ne assms(7)]
  have els: "elems h' out =
      map (\<lambda>x. min (max (fl Float64 (fl Float64 (fl Float32 x - p_low) / d)) 0) 1)
        (elems h img2d)"
    using r(3) assms(1,2,4) by simp
  have rng: "\<forall>v \<in> set (elems h' out). 0 \<le> v \<and> v \<le> 1"
    unfolding els by auto
  have ends: "\<forall>i < length (elems h img2d).
      (fl Float32 (elems h img2d ! i) = p_low \<longrightarrow> elems h' out ! i = 0) \<and>
      (fl Float32 (elems h img2d ! i) = p_high \<longrightarrow> elems h' out ! i = 1)"
    unfolding els using assms(4,5) by simp
  from r(1) els rng ends show ?thesis
    by blast
qed

text \<open>A 1 by 5 image of 8-bit pixels whose percentiles 1 and 99 are 0 and 10.\<close>

theorem percentile_contrast_stretch_witness:
  "percentile_linear
     (elems [[0, 0, 5, 10, 10]] \<lparr>dtype = UInt8, shape = [1, 5], buf = 0, offset = 0\<rparr>) 99
     \<noteq> percentile_linear
         (elems [[0, 0, 5, 10, 10]] \<lparr>dtype = UInt8, shape = [1, 5], buf = 0, offset = 0\<rparr>) 1 \<and>
   fl Float64 (10 - 0) \<noteq> 0 \<and>
   shape (fst (percentile_contrast percentile_linear
     \<lparr>dtype = UInt8, shape = [1, 5], buf = 0, offset = 0\<rparr> 1 99 [[0, 0, 5, 10, 10]])) = [1, 5] \<and>
   elems (snd (percentile_contrast percentile_linear
            \<lparr>dtype = UInt8, shape = [1, 5], buf = 0, offset = 0\<rparr> 1 99 [[0, 0, 5, 10, 10]]))
     (fst (percentile_contrast percentile_linear
            \<lparr>dtype = UInt8, shape = [1, 5], buf = 0, offset = 0\<rparr> 1 99 [[0, 0, 5, 10, 10]]))
     = [0, 0, 1 / 2, 1, 1]"
proof -
  let ?h = "[[0, 0, 5, 10, 10 :: real]]"
  let ?img = "\<lparr>dtype = UInt8, shape = [1, 5], buf = 0, offset = 0\<rparr>"
  have els: "elems ?h ?img = [0, 0, 5, 10, 10]"
    by (simp add: elems_def)
  have lo: "percentile_linear [0, 0, 5, 10, 10] 1 = 0"
    by (simp add: percentile_linear_def Let_def)
  have hi: "percentile_linear [0, 0, 5, 10, 10] 99 = 10"
    by (simp add: percentile_linear_def Let_def)
  have ne: "percentile_linear (elems ?h ?img) 99 \<noteq> percentile_linear (elems ?h ?img) 1"
    unfolding els lo hi by simp
  have d: "fl Float64 10 = 10"
    by (simp add: fl_eval)
  have dn: "fl Float64 (percentile_linear (elems ?h ?img) 99 - percentile_linear (elems ?h ?img) 1)
      \<noteq> 0"
    unfolding els lo hi by (simp add: d)
  have rg: "\<forall>x \<in> set (elems ?h ?img). \<bar>x\<bar> \<le> float32_max"
    unfolding els by (simp add: float32_max_def)
  have c: "fl Float32 5 = 5" "fl Float32 10 = 10" "fl Float64 5 = 5" "fl Float64 (1 / 2) = 1 / 2"
    by (simp_all add: fl_eval)
  obtain out h' where r: "percentile_contrast percentile_linear ?img 1 99 ?h = (out, h')"
    by (cases "percentile_contrast percentile_linear ?img 1 99 ?h")
  note t = percentile_contrast_stretch [OF refl refl ne refl dn rg r, unfolded els lo hi]
  have "shape out = shape ?img"
    using t by (rule conjunct1)
  moreover have "elems h' out = [0, 0, 1 / 2, 1, 1]"
    using t [THEN conjunct2, THEN conjunct1] by (simp add: c d)
  ultimately show ?thesis
    using ne r d by simp
qed

subsection \<open>save_as_tiff\<close>

lemma cast_to_uint16: "cast_to UInt16 v = of_int ((if 0 \<le> v then \<lfloor>v\<rfloor> else \<lceil>v\<rceil>) mod 65536)"
  by (simp add: cast_to_def is_float_def int_wrap_def is_signed_def trunc_def)

lemma cast_to_uint16_fun:
  "cast_to UInt16 = (\<lambda>v. of_int ((if 0 \<le> v then \<lfloor>v\<rfloor> else \<lceil>v\<rceil>) mod 65536))"
  by (rule ext) (rule cast_to_uint16)

lemma cast_to_uint16_clipped:
  assumes "0 \<le> x" and "x \<le> 65535"
  shows "cast_to UInt16 x = of_int \<lfloor>x\<rfloor>"
proof -
  have "0 \<le> \<lfloor>x\<rfloor>" and "\<lfloor>x\<rfloor> < 65536"
    using assms by (simp_all add: floor_less_iff)
  then have "\<lfloor>x\<rfloor> mod 65536 = \<lfloor>x\<rfloor>"
    by simp
  then show ?thesis
    using assms(1) by (simp add: cast_to_uint16)
qed

lemma save_as_tiff_float:
  assumes "is_float (dtype arr)"
  shows "\<exists>payload. trace (save_as_tiff arr out_path UInt16 w) =
           trace w @ [Imwrite out_path payload
             \<lparr>px_dtype = UInt16, px_shape = shape arr,
              px_values = map (\<lambda>v. real_of_int \<lfloor>min (max (fl (dtype arr) (v * 65535)) 0) 65535\<rfloor>)
                            (elems (heap w) arr)\<rparr>]"
proof -
  obtain a ha where a: "np_mul arr 65535 (heap w) = (a, ha)"
    by (cases "np_mul arr 65535 (heap w)")
  obtain b hb where b: "np_clip a 0 65535 ha = (b, hb)"
    by (cases "np_clip a 0 65535 ha")
  obtain c hc where c: "astype b UInt16 hb = (c, hc)"
    by (cases "astype b UInt16 hb")
  have ne: "dtype arr \<noteq> UInt16"
    using assms by (auto simp: is_float_def)
  have dt: "dtype arr = (if is_float (dtype arr) then dtype arr else Float64)"
    using assms by simp
  have "cast_to UInt16 (min (max z 0) 65535) = real_of_int \<lfloor>min (max z 0) 65535\<rfloor>" for z :: real
    by (rule cast_to_uint16_clipped) simp_all
  then have "snapshot hc c = \<lparr>px_dtype = UInt16, px_shape = shape arr,
      px_values = map (\<lambda>v. real_of_int \<lfloor>min (max (fl (dtype arr) (v * 65535)) 0) 65535\<rfloor>)
                    (elems (heap w) arr)\<rparr>"
    using astype_res(1,2,6) [OF c] np_clip_res(2,6) [OF b] np_mul_res(2,6) [OF a dt]
    by (simp add: snapshot_def comp_def)
  then show ?thesis
    using assms ne a b c by (simp add: save_as_tiff_def emit_def Let_def)
qed

lemma save_as_tiff_int:
  assumes "\<not> is_float (dtype arr)" and "dtype arr \<noteq> dt"
  shows "\<exists>payload. trace (save_as_tiff arr out_path dt w) =
           trace w @ [Imwrite out_path payload
             \<lparr>px_dtype = dt, px_shape = shape arr,
              px_values = map (cast_to dt) (elems (heap w) arr)\<rparr>]"
proof -
  obtain c hc where c: "astype arr dt (heap w) = (c, hc)"
    by (cases "astype arr dt (heap w)")
  have "snapshot hc c = \<lparr>px_dtype = dt, px_shape = shape arr,
      px_values = map (cast_to dt) (elems (heap w) arr)\<rparr>"
    using astype_res(1,2,6) [OF c] by (simp add: snapshot_def)
  then show ?thesis
    using assms c by (simp add: save_as_tiff_def emit_def Let_def)
qed

lemma save_as_tiff_same:
  assumes "dtype arr = dt"
  shows "trace (save_as_tiff arr out_path dt w) =
           trace w @ [Imwrite out_path arr
             \<lparr>px_dtype = dt, px_shape = shape arr, px_values = elems (heap w) arr\<rparr>]"
  using assms by (simp add: save_as_tiff_def emit_def Let_def snapshot_def)

text \<open>
  C3. With the target type \<^verbatim>\<open>uint16\<close>, \<^verbatim>\<open>save_as_tiff\<close> hands \<^verbatim>\<open>tiff.imwrite\<close> one
  array, of type \<^verbatim>\<open>uint16\<close> and of the shape of its argument. For a floating-point
  argument an element \<open>v\<close> becomes the floating-point product \<open>v * 65535\<close>, clipped to
  \<open>[0, 65535]\<close>, with its fraction dropped. For an integer argument of another type the
  element is not rescaled: its low 16 bits are kept. For a \<^verbatim>\<open>uint16\<close> argument the
  elements are as they were.
\<close>

theorem save_as_tiff_uint16:
  "\<exists>payload. trace (save_as_tiff arr out_path UInt16 w) =
     trace w @ [Imwrite out_path payload
       \<lparr>px_dtype = UInt16, px_shape = shape arr,
        px_values =
          (if is_float (dtype arr)
           then map (\<lambda>v. real_of_int \<lfloor>min (max (fl (dtype arr) (v * 65535)) 0) 65535\<rfloor>)
                  (elems (heap w) arr)
           else if dtype arr = UInt16 then elems (heap w) arr
           else map (\<lambda>v. real_of_int ((if 0 \<le> v then \<lfloor>v\<rfloor> else \<lceil>v\<rceil>) mod 65536))
                  (elems (heap w) arr))\<rparr>]"
proof (cases "is_float (dtype arr)")
  case True
  then show ?thesis
    using save_as_tiff_float [of arr out_path w] by simp
next
  case False
  show ?thesis
  proof (cases "dtype arr = UInt16")
    case True
    then show ?thesis
      using False save_as_tiff_same [of arr UInt16 out_path w] by auto
  next
    case ne: False
    then show ?thesis
      using False save_as_tiff_int [of arr UInt16 out_path w] by (simp add: cast_to_uint16_fun)
  qed
qed

text \<open>
  A 64-bit and a 32-bit floating-point array, a 32-bit integer array and a \<^verbatim>\<open>uint16\<close>
  array. The last element of the first array and the element of the second have a
  product with 65535 that is below 1 and is rounded to 1.
\<close>

theorem save_as_tiff_uint16_witness:
  "(\<exists>payload. trace (save_as_tiff \<lparr>dtype = Float64, shape = [5], buf = 0, offset = 0\<rparr>
       ''mean_projection.tif'' UInt16
       \<lparr>heap = [[1 / 2, 3 / 2, - 1 / 4, 1, 281479271743489 / 2 ^ 64]], trace = []\<rparr>) =
     [Imwrite ''mean_projection.tif'' payload
        \<lparr>px_dtype = UInt16, px_shape = [5], px_values = [32767, 65535, 0, 65535, 1]\<rparr>]) \<and>
   (\<exists>payload. trace (save_as_tiff \<lparr>dtype = Float32, shape = [1], buf = 0, offset = 0\<rparr>
       ''mean_projection.tif'' UInt16 \<lparr>heap = [[65537 / 2 ^ 32]], trace = []\<rparr>) =
     [Imwrite ''mean_projection.tif'' payload
        \<lparr>px_dtype = UInt16, px_shape = [1], px_values = [1]\<rparr>]) \<and>
   (\<exists>payload. trace (save_as_tiff \<lparr>dtype = Int32, shape = [3], buf = 0, offset = 0\<rparr>
       ''max_projection.tif'' UInt16 \<lparr>heap = [[- 2, 70000, 5]], trace = []\<rparr>) =
     [Imwrite ''max_projection.tif'' payload
        \<lparr>px_dtype = UInt16, px_shape = [3], px_values = [65534, 4464, 5]\<rparr>]) \<and>
   (\<exists>payload. trace (save_as_tiff \<lparr>dtype = UInt16, shape = [2], buf = 0, offset = 0\<rparr>
       ''max_projection.tif'' UInt16 \<lparr>heap = [[7, 65535]], trace = []\<rparr>) =
     [Imwrite ''max_projection.tif'' payload
        \<lparr>px_dtype = UInt16, px_shape = [2], px_values = [7, 65535]\<rparr>])"
proof -
  have f64: "fl Float64 (65535 / 2) = 65535 / 2" "fl Float64 (196605 / 2) = 196605 / 2"
    "fl Float64 (- (65535 / 4)) = - (65535 / 4)" "fl Float64 65535 = 65535"
    "fl Float64 (281479271743489 / 2 ^ 64 * 65535) = 1"
    by (simp_all add: fl_eval)
  have f32: "fl Float32 (65537 / 2 ^ 32 * 65535) = 1"
    by (simp add: fl_eval)
  have a: "\<exists>payload. trace (save_as_tiff \<lparr>dtype = Float64, shape = [5], buf = 0, offset = 0\<rparr>
       ''mean_projection.tif'' UInt16
       \<lparr>heap = [[1 / 2, 3 / 2, - 1 / 4, 1, 281479271743489 / 2 ^ 64]], trace = []\<rparr>) =
     [Imwrite ''mean_projection.tif'' payload
        \<lparr>px_dtype = UInt16, px_shape = [5], px_values = [32767, 65535, 0, 65535, 1]\<rparr>]"
    using save_as_tiff_uint16 [of "\<lparr>dtype = Float64, shape = [5], buf = 0, offset = 0\<rparr>"
        "''mean_projection.tif''"
        "\<lparr>heap = [[1 / 2, 3 / 2, - 1 / 4, 1, 281479271743489 / 2 ^ 64]], trace = []\<rparr>"] f64
    by (simp add: is_float_def elems_def)
  have b: "\<exists>payload. trace (save_as_tiff \<lparr>dtype = Float32, shape = [1], buf = 0, offset = 0\<rparr>
       ''mean_projection.tif'' UInt16 \<lparr>heap = [[65537 / 2 ^ 32]], trace = []\<rparr>) =
     [Imwrite ''mean_projection.tif'' payload
        \<lparr>px_dtype = UInt16, px_shape = [1], px_values = [1]\<rparr>]"
    using save_as_tiff_uint16 [of "\<lparr>dtype = Float32, shape = [1], buf = 0, offset = 0\<rparr>"
        "''mean_projection.tif''" "\<lparr>heap = [[65537 / 2 ^ 32]], trace = []\<rparr>"] f32
    by (simp add: is_float_def elems_def)
  have c: "\<exists>payload. trace (save_as_tiff \<lparr>dtype = Int32, shape = [3], buf = 0, offset = 0\<rparr>
       ''max_projection.tif'' UInt16 \<lparr>heap = [[- 2, 70000, 5]], trace = []\<rparr>) =
     [Imwrite ''max_projection.tif'' payload
        \<lparr>px_dtype = UInt16, px_shape = [3], px_values = [65534, 4464, 5]\<rparr>]"
    using save_as_tiff_uint16 [of "\<lparr>dtype = Int32, shape = [3], buf = 0, offset = 0\<rparr>"
        "''max_projection.tif''" "\<lparr>heap = [[- 2, 70000, 5]], trace = []\<rparr>"]
    by (simp add: is_float_def elems_def)
  have d: "\<exists>payload. trace (save_as_tiff \<lparr>dtype = UInt16, shape = [2], buf = 0, offset = 0\<rparr>
       ''max_projection.tif'' UInt16 \<lparr>heap = [[7, 65535]], trace = []\<rparr>) =
     [Imwrite ''max_projection.tif'' payload
        \<lparr>px_dtype = UInt16, px_shape = [2], px_values = [7, 65535]\<rparr>]"
    using save_as_tiff_uint16 [of "\<lparr>dtype = UInt16, shape = [2], buf = 0, offset = 0\<rparr>"
        "''max_projection.tif''" "\<lparr>heap = [[7, 65535]], trace = []\<rparr>"]
    by (simp add: is_float_def elems_def)
  from a b c d show ?thesis
    by blast
qed

text \<open>
  C7, as stated: the stored integer is within 1/65535 of \<open>v * 65535\<close> rounded to the
  nearest integer. For \<open>v = 1/4\<close> the product is 16383.75, a floating-point number; the
  stored integer is 16383 and the rounded product is 16384.
\<close>

theorem save_as_tiff_roundtrip_counterexample:
  "trace (save_as_tiff \<lparr>dtype = Float64, shape = [1], buf = 0, offset = 0\<rparr>
       ''v.tif'' UInt16 \<lparr>heap = [[1 / 4]], trace = []\<rparr>) =
     [Imwrite ''v.tif'' \<lparr>dtype = UInt16, shape = [1], buf = 3, offset = 0\<rparr>
        \<lparr>px_dtype = UInt16, px_shape = [1], px_values = [16383]\<rparr>] \<and>
   round (1 / 4 * 65535 :: real) = 16384 \<and>
   \<not> \<bar>16383 - real_of_int (round (1 / 4 * 65535 :: real))\<bar> \<le> 1 / 65535"
proof -
  have r: "round (1 / 4 * 65535 :: real) = 16384"
    by (simp add: round_def)
  have f: "fl Float64 (65535 / 4) = 65535 / 4"
    by (simp add: fl_eval)
  have "trace (save_as_tiff \<lparr>dtype = Float64, shape = [1], buf = 0, offset = 0\<rparr>
       ''v.tif'' UInt16 \<lparr>heap = [[1 / 4]], trace = []\<rparr>) =
     [Imwrite ''v.tif'' \<lparr>dtype = UInt16, shape = [1], buf = 3, offset = 0\<rparr>
        \<lparr>px_dtype = UInt16, px_shape = [1], px_values = [16383]\<rparr>]"
    by (simp add: save_as_tiff_def is_float_def np_mul_def np_clip_def astype_def new_array_def
        elems_def snapshot_def emit_def cast_to_def int_wrap_def is_signed_def trunc_def f)
  then show ?thesis
    unfolding r by simp
qed

text \<open>
  C7, amended. For \<open>v\<close> in \<open>[0, 1]\<close>, a floating-point array holding the single element \<open>v\<close>
  is stored as a single 16-bit integer: the floating-point product \<open>v * 65535\<close> with its
  fraction dropped. That is one of the two integers next to the exact product (the exact
  product rounded down, or rounded up when the floating-point product reaches the next
  integer); it is less than 1 away from the exact product and within 1 of the exact
  product rounded to the nearest integer.
\<close>

theorem save_as_tiff_roundtrip:
  assumes "is_float (dtype arr)"
      and "elems (heap w) arr = [v]"
      and "0 \<le> v" and "v \<le> 1"
      and "y = v * 65535"
  shows "\<exists>payload s.
           trace (save_as_tiff arr out_path UInt16 w) =
             trace w @ [Imwrite out_path payload
               \<lparr>px_dtype = UInt16, px_shape = shape arr, px_values = [real_of_int s]\<rparr>] \<and>
           s = \<lfloor>fl (dtype arr) y\<rfloor> \<and>
           \<lfloor>y\<rfloor> \<le> s \<and> s \<le> \<lceil>y\<rceil> \<and>
           \<bar>real_of_int s - y\<bar> < 1 \<and>
           \<bar>s - round y\<bar> \<le> 1"
proof -
  define s where "s = \<lfloor>fl (dtype arr) y\<rfloor>"
  have lo: "0 \<le> y" and hi: "y \<le> 65535"
    using assms(3-5) by simp_all
  have "(65535 :: real) < 2 ^ precision (dtype arr)"
    by (simp add: precision_def)
  with hi have "y < 2 ^ precision (dtype arr)"
    by linarith
  note b = fl_between [OF lo this]
  have "0 \<le> real_of_int \<lfloor>y\<rfloor>"
    using lo by simp
  then have f0: "0 \<le> fl (dtype arr) y"
    using b(1) by linarith
  have "\<lceil>y\<rceil> \<le> 65535"
    using hi by (simp add: ceiling_le_iff)
  then have "real_of_int \<lceil>y\<rceil> \<le> 65535"
    by linarith
  then have f1: "fl (dtype arr) y \<le> 65535"
    using b(2) by linarith
  have clip: "min (max (fl (dtype arr) y) 0) 65535 = fl (dtype arr) y"
    using f0 f1 by simp
  have st: "\<exists>payload. trace (save_as_tiff arr out_path UInt16 w) =
           trace w @ [Imwrite out_path payload
             \<lparr>px_dtype = UInt16, px_shape = shape arr, px_values = [real_of_int s]\<rparr>]"
    using save_as_tiff_float [OF assms(1), of out_path w] assms(2,5) clip
    by (simp add: s_def)
  have s1: "\<lfloor>y\<rfloor> \<le> s"
    unfolding s_def using b(1) by (simp add: le_floor_iff)
  have "real_of_int s \<le> real_of_int \<lceil>y\<rceil>"
    unfolding s_def using b(2) by linarith
  then have s2: "s \<le> \<lceil>y\<rceil>"
    by simp
  have d: "\<bar>real_of_int s - y\<bar> < 1"
    using s1 s2 by linarith
  have "\<lfloor>y\<rfloor> \<le> round y" "round y \<le> \<lceil>y\<rceil>" "\<lceil>y\<rceil> \<le> \<lfloor>y\<rfloor> + 1"
    unfolding round_def by linarith+
  then have r: "\<bar>s - round y\<bar> \<le> 1"
    using s1 s2 by linarith
  from st s1 s2 d r show ?thesis
    unfolding s_def by blast
qed

text \<open>
  A 64-bit value \<open>v\<close> whose exact product with 65535 is just below 1: the floating-point
  product is 1, and 1 is stored.
\<close>

theorem save_as_tiff_roundtrip_witness:
  "is_float (dtype \<lparr>dtype = Float64, shape = [1], buf = 0, offset = 0\<rparr>) \<and>
   elems (heap \<lparr>heap = [[281479271743489 / 2 ^ 64]], trace = []\<rparr>)
     \<lparr>dtype = Float64, shape = [1], buf = 0, offset = 0\<rparr> = [281479271743489 / 2 ^ 64] \<and>
   (0 :: real) \<le> 281479271743489 / 2 ^ 64 \<and> (281479271743489 / 2 ^ 64 :: real) \<le> 1 \<and>
   \<lfloor>281479271743489 / 2 ^ 64 * 65535 :: real\<rfloor> = 0 \<and>
   (\<exists>payload. trace (save_as_tiff \<lparr>dtype = Float64, shape = [1], buf = 0, offset = 0\<rparr>
       ''v.tif'' UInt16 \<lparr>heap = [[281479271743489 / 2 ^ 64]], trace = []\<rparr>) =
     [Imwrite ''v.tif'' payload
        \<lparr>px_dtype = UInt16, px_shape = [1], px_values = [1]\<rparr>])"
proof -
  let ?arr = "\<lparr>dtype = Float64, shape = [1], buf = 0, offset = 0\<rparr>"
  let ?w = "\<lparr>heap = [[281479271743489 / 2 ^ 64 :: real]], trace = []\<rparr>"
  have f: "is_float (dtype ?arr)"
    by (simp add: is_float_def)
  have e: "elems (heap ?w) ?arr = [281479271743489 / 2 ^ 64]"
    by (simp add: elems_def)
  have p: "(0 :: real) \<le> 281479271743489 / 2 ^ 64" "(281479271743489 / 2 ^ 64 :: real) \<le> 1"
    by simp_all
  have fl: "\<lfloor>fl (dtype ?arr) (281479271743489 / 2 ^ 64 * 65535)\<rfloor> = 1"
    by (simp add: fl_eval)
  have z: "\<lfloor>281479271743489 / 2 ^ 64 * 65535 :: real\<rfloor> = 0"
    by simp
  from save_as_tiff_roundtrip [OF f e p refl, of "''v.tif''"]
  obtain payload s where
    "trace (save_as_tiff ?arr ''v.tif'' UInt16 ?w) =
       trace ?w @ [Imwrite ''v.tif'' payload
         \<lparr>px_dtype = UInt16, px_shape = shape ?arr, px_values = [real_of_int s]\<rparr>]"
    and "s = \<lfloor>fl (dtype ?arr) (281479271743489 / 2 ^ 64 * 65535)\<rfloor>"
    by blast
  then have "\<exists>payload. trace (save_as_tiff ?arr ''v.tif'' UInt16 ?w) =
     [Imwrite ''v.tif'' payload \<lparr>px_dtype = UInt16, px_shape = [1], px_values = [1]\<rparr>]"
    unfolding fl by auto
  with f e p z show ?thesis
    by blast
qed

subsection \<open>load_tiff\<close>



text \<open>
  C6. When the first page has no \<^verbatim>\<open>XResolution\<close> tag, or no \<^verbatim>\<open>YResolution\<close> tag,
  \<^verbatim>\<open>load_tiff\<close> fails with the \<^verbatim>\<open>KeyError\<close> of the first missing tag; nothing is printed
  and nothing reaches the viewer.
\<close>

theorem load_tiff_missing_tag:
  assumes "fs tif_path = Some tif"
      and "tif_tags tif ''XResolution'' = None \<or> tif_tags tif ''YResolution'' = None"
  shows "fst (load_tiff fs percentile tif_path w) =
           Inl (KeyError (if tif_tags tif ''XResolution'' = None
                          then ''XResolution'' else ''YResolution'')) \<and>
         trace (snd (load_tiff fs percentile tif_path w)) = trace w"
  using assms
  by (auto simp: load_tiff_def asarray_def new_array_def Let_def split: option.splits)

text \<open>A file with \<^verbatim>\<open>XResolution\<close> and no \<^verbatim>\<open>YResolution\<close>.\<close>

theorem load_tiff_missing_tag_witness:
  "fst (load_tiff
     [''stack.tif'' \<mapsto>
        \<lparr>tif_pixels = \<lparr>px_dtype = UInt8, px_shape = [1, 1, 2], px_values = [3, 4]\<rparr>,
         tif_tags = [''XResolution'' \<mapsto> Rational 72 1],
         tif_description = None\<rparr>]
     percentile_linear ''stack.tif'' \<lparr>heap = [], trace = []\<rparr>) = Inl (KeyError ''YResolution'') \<and>
   trace (snd (load_tiff
     [''stack.tif'' \<mapsto>
        \<lparr>tif_pixels = \<lparr>px_dtype = UInt8, px_shape = [1, 1, 2], px_values = [3, 4]\<rparr>,
         tif_tags = [''XResolution'' \<mapsto> Rational 72 1],
         tif_description = None\<rparr>]
     percentile_linear ''stack.tif'' \<lparr>heap = [], trace = []\<rparr>)) = []"
  using load_tiff_missing_tag [of
      "[''stack.tif'' \<mapsto>
         \<lparr>tif_pixels = \<lparr>px_dtype = UInt8, px_shape = [1, 1, 2], px_values = [3, 4]\<rparr>,
          tif_tags = [''XResolution'' \<mapsto> Rational 72 1],
          tif_description = None\<rparr>]"
      "''stack.tif''"
      "\<lparr>tif_pixels = \<lparr>px_dtype = UInt8, px_shape = [1, 1, 2], px_values = [3, 4]\<rparr>,
        tif_tags = [''XResolution'' \<mapsto> Rational 72 1],
        tif_description = None\<rparr>"
      percentile_linear "\<lparr>heap = [], trace = []\<rparr>"]
  by simp

subsection \<open>Worlds that only grow\<close>

lemma trace_emit [simp]: "trace (emit cs w) = trace w @ cs"
  by (simp add: emit_def)

lemma heap_emit [simp]: "heap (emit cs w) = heap w"
  by (simp add: emit_def)

lemma fresh_calls_append [simp]:
  "fresh_calls k (cs @ ds) \<longleftrightarrow> fresh_calls k cs \<and> fresh_calls k ds"
  by (simp add: fresh_calls_def)

lemma fresh_calls_Nil [simp]: "fresh_calls k []"
  by (simp add: fresh_calls_def)

lemma extends_refl [simp]: "extends k w w"
  by (simp add: extends_def)

lemma extends_trans:
  assumes "extends k w w'" and "extends k w' w''"
  shows "extends k w w''"
proof -
  from assms obtain cs ds where cs: "trace w' = trace w @ cs" and ds: "trace w'' = trace w' @ ds"
    by (auto simp: extends_def prefix_def)
  from assms have "fresh_calls k cs" "fresh_calls k ds"
    by (simp_all add: extends_def cs ds)
  moreover from assms have "prefix (heap w) (heap w'')"
    by (auto simp: extends_def)
  ultimately show ?thesis
    by (simp add: extends_def cs ds)
qed

lemma extends_emit: "fresh_calls k cs \<Longrightarrow> extends k w (emit cs w)"
  by (simp add: extends_def)

lemma extends_heap: "prefix (heap w) h' \<Longrightarrow> extends k w (w\<lparr>heap := h'\<rparr>)"
  by (simp add: extends_def)

lemma extends_emit_heap:
  "prefix (heap w) h' \<Longrightarrow> fresh_calls k cs \<Longrightarrow> extends k w (emit cs (w\<lparr>heap := h'\<rparr>))"
  by (simp add: extends_def)

lemma new_array_grows:
  assumes "new_array dt shp vals h = (r, h')"
  shows "prefix h h'" "buf r = length h" "length h' = Suc (length h)"
  using assms by (auto simp: new_array_def)

lemma percentile_contrast_grows:
  assumes "percentile_contrast percentile img2d low high h = (out, h')"
  shows "prefix h h'" "length h \<le> buf out" "buf out < length h'"
  using assms
  by (auto simp: percentile_contrast_def np_zeros_like_def astype_def np_sub_def np_div_def
      np_clip_def new_array_def Let_def split: if_splits)

lemma percentile_contrast_shape:
  assumes "percentile_contrast percentile img2d low high h = (out, h')"
  shows "shape out = shape img2d"
  using assms
  by (auto simp: percentile_contrast_def np_zeros_like_def astype_def np_sub_def np_div_def
      np_clip_def new_array_def Let_def split: if_splits)

lemma show_frame_extends:
  assumes "k \<le> length (heap w)"
  shows "extends k w (snd (show_frame percentile frame2d title w))"
proof -
  obtain out h' where r: "percentile_contrast percentile frame2d 1 99 (heap w) = (out, h')"
    by (cases "percentile_contrast percentile frame2d 1 99 (heap w)")
  have "fresh_calls k [Imshow out (snapshot h' out), Title title, Axis_off, Plt_show]"
    using percentile_contrast_grows(2) [OF r] assms by (simp add: fresh_calls_def)
  then show ?thesis
    using percentile_contrast_grows(1) [OF r] r
    by (simp add: show_frame_def Let_def extends_emit_heap extends_heap)
qed

lemma show_frame_Inr:
  assumes "image_shape_ok (shape frame2d)"
  shows "fst (show_frame percentile frame2d title w) = Inr ()"
proof -
  obtain out h' where r: "percentile_contrast percentile frame2d 1 99 (heap w) = (out, h')"
    by (cases "percentile_contrast percentile frame2d 1 99 (heap w)")
  then show ?thesis
    using assms percentile_contrast_shape [OF r] by (simp add: show_frame_def Let_def)
qed

lemma show_frame_Inr_iff:
  "fst (show_frame percentile frame2d title w) = Inr u \<longleftrightarrow> image_shape_ok (shape frame2d)"
proof -
  obtain out h' where r: "percentile_contrast percentile frame2d 1 99 (heap w) = (out, h')"
    by (cases "percentile_contrast percentile frame2d 1 99 (heap w)")
  then show ?thesis
    using percentile_contrast_shape [OF r] by (simp add: show_frame_def Let_def)
qed

lemma save_as_tiff_extends:
  assumes "k \<le> length (heap w)" and "k \<le> buf arr"
  shows "extends k w (save_as_tiff arr out_path dt w)"
proof -
  obtain p h' where p: "(if dtype arr \<noteq> dt then
               (if is_float (dtype arr) then
                  (let (a, ha) = np_mul arr 65535 (heap w);
                       (b, hb) = np_clip a 0 65535 ha
                   in astype b UInt16 hb)
                else astype arr dt (heap w))
             else (arr, heap w)) = (p, h')"
    by (cases "(if dtype arr \<noteq> dt then
               (if is_float (dtype arr) then
                  (let (a, ha) = np_mul arr 65535 (heap w);
                       (b, hb) = np_clip a 0 65535 ha
                   in astype b UInt16 hb)
                else astype arr dt (heap w))
             else (arr, heap w))")
  then have "prefix (heap w) h'" and "k \<le> buf p"
    using assms
    by (auto simp: np_mul_def np_clip_def astype_def new_array_def Let_def
        split: if_splits prod.splits)
  then show ?thesis
    using p by (simp add: save_as_tiff_def Let_def extends_emit_heap fresh_calls_def)
qed

lemma np_mean_axis0_grows:
  assumes "np_mean_axis0 data h = Inr (r, h')"
  shows "prefix h h'" "buf r = length h" "length h' = Suc (length h)"
  using assms by (auto simp: np_mean_axis0_def new_array_def Let_def split: list.splits)

lemma np_max_axis0_grows:
  assumes "np_max_axis0 data h = Inr (r, h')"
  shows "prefix h h'" "buf r = length h" "length h' = Suc (length h)"
  using assms
  by (auto simp: np_max_axis0_def new_array_def Let_def split: list.splits if_splits)

lemma extends_mono: "extends k w w' \<Longrightarrow> prefix (heap w) (heap w')"
  by (simp add: extends_def)

lemma extends_length: "extends k w w' \<Longrightarrow> length (heap w) \<le> length (heap w')"
  by (auto simp: extends_def dest: prefix_length_le)

text \<open>The last part of \<^verbatim>\<open>summarize_movie\<close>: the four files and the message.\<close>

lemma summarize_movie_tail:
  assumes "k \<le> length (heap w5)" and "k \<le> buf mean_proj" and "k \<le> buf max_proj"
      and "percentile_contrast percentile mean_proj 1 99 (heap w5) = (cmean, h6)"
      and "w6 = emit [Imsave (path_join save_dir ''mean_projection.png'') cmean (snapshot h6 cmean)]
                  (w5\<lparr>heap := h6\<rparr>)"
      and "percentile_contrast percentile max_proj 1 99 (heap w6) = (cmax, h7)"
      and "w7 = emit [Imsave (path_join save_dir ''max_projection.png'') cmax (snapshot h7 cmax)]
                  (w6\<lparr>heap := h7\<rparr>)"
      and "w8 = save_as_tiff mean_proj (path_join save_dir ''mean_projection.tif'') UInt16 w7"
      and "w9 = save_as_tiff max_proj (path_join save_dir ''max_projection.tif'') UInt16 w8"
  shows "extends k w5 (emit [Print [Str (''[OK] Saved previews to '' @ save_dir)]] w9)"
proof -
  have s6: "extends k w5 w6"
    unfolding assms(5) using percentile_contrast_grows(1,2) [OF assms(4)] assms(1)
    by (intro extends_emit_heap) (simp_all add: fresh_calls_def)
  have s7: "extends k w6 w7"
    unfolding assms(7) using percentile_contrast_grows(1,2) [OF assms(6)]
      extends_length [OF s6] assms(1)
    by (intro extends_emit_heap) (simp_all add: fresh_calls_def)
  have s8: "extends k w7 w8"
    unfolding assms(8) using extends_length [OF s6] extends_length [OF s7] assms(1,2)
    by (intro save_as_tiff_extends) simp_all
  have s9: "extends k w8 w9"
    unfolding assms(9) using extends_length [OF s6] extends_length [OF s7] extends_length [OF s8]
      assms(1,3)
    by (intro save_as_tiff_extends) simp_all
  have s10: "extends k w9 (emit [Print [Str (''[OK] Saved previews to '' @ save_dir)]] w9)"
    by (intro extends_emit) (simp add: fresh_calls_def)
  show ?thesis
    by (rule extends_trans [OF s6] extends_trans [OF s7] extends_trans [OF s8]
        extends_trans [OF s9] s10)+
qed

lemma summarize_movie_extends:
  "extends (length (heap w)) w (snd (summarize_movie percentile data save_dir w))"
proof -
  let ?k = "length (heap w)"
  let ?w0 = "emit [Mkdir save_dir] w"
  have e0: "extends ?k w ?w0"
    by (simp add: extends_emit fresh_calls_def)
  show ?thesis
  proof (cases "shape data")
    case Nil
    then show ?thesis
      using e0 by (simp add: summarize_movie_def Let_def)
  next
    case (Cons n_frames rest)
    show ?thesis
    proof (cases "getitem_frame data (n_frames div 2)")
      case (Inl e)
      then show ?thesis
        using e0 Cons by (simp add: summarize_movie_def Let_def)
    next
      case (Inr mid_frame)
      obtain r1 w1 where sf1: "show_frame percentile mid_frame
          (''Frame '' @ str_nat (n_frames div 2) @ ''/'' @ str_nat n_frames) ?w0 = (r1, w1)"
        by (cases "show_frame percentile mid_frame
          (''Frame '' @ str_nat (n_frames div 2) @ ''/'' @ str_nat n_frames) ?w0")
      have "extends ?k ?w0 (snd (show_frame percentile mid_frame
          (''Frame '' @ str_nat (n_frames div 2) @ ''/'' @ str_nat n_frames) ?w0))"
        by (rule show_frame_extends) simp
      then have "extends ?k ?w0 w1"
        unfolding sf1 by simp
      then have e1: "extends ?k w w1"
        by (rule extends_trans [OF e0])
      show ?thesis
      proof (cases r1)
        case (Inl e)
        then show ?thesis
          using e1 Cons Inr sf1 by (simp add: summarize_movie_def Let_def)
      next
        case ok1: (Inr u1)
        obtain c h2 where c: "percentile_contrast percentile mid_frame 1 99 (heap w1) = (c, h2)"
          by (cases "percentile_contrast percentile mid_frame 1 99 (heap w1)")
        let ?w2 = "emit [Imsave (path_join save_dir (''frame_'' @ pad4 (n_frames div 2) @ ''.png''))
                           c (snapshot h2 c)] (w1\<lparr>heap := h2\<rparr>)"
        have k1: "?k \<le> length (heap w1)"
          using extends_length [OF e1] .
        have e2: "extends ?k w ?w2"
          using percentile_contrast_grows(1,2) [OF c] k1
          by (intro extends_trans [OF e1] extends_emit_heap) (simp_all add: fresh_calls_def)
        have k2: "?k \<le> length (heap ?w2)"
          using extends_length [OF e2] .
        show ?thesis
        proof (cases "np_mean_axis0 data (heap ?w2)")
          case (Inl e)
          then show ?thesis
            using e2 Cons Inr sf1 ok1 c by (simp add: summarize_movie_def Let_def)
        next
          case mean: (Inr p)
          obtain mean_proj h3 where p: "p = (mean_proj, h3)"
            by (cases p)
          note m = np_mean_axis0_grows [OF mean [unfolded p]]
          have e3: "extends ?k w (?w2\<lparr>heap := h3\<rparr>)"
            using m(1) by (intro extends_trans [OF e2] extends_heap)
          show ?thesis
          proof (cases "np_max_axis0 data h3")
            case (Inl e)
            then show ?thesis
              using e3 Cons Inr sf1 ok1 c mean p by (simp add: summarize_movie_def Let_def)
          next
            case mx: (Inr q)
            obtain max_proj h4 where q: "q = (max_proj, h4)"
              by (cases q)
            note x = np_max_axis0_grows [OF mx [unfolded q]]
            have km: "?k \<le> buf mean_proj" "?k \<le> buf max_proj"
              using m x k2 by simp_all
            let ?w3 = "?w2\<lparr>heap := h4\<rparr>"
            have e4: "extends ?k w ?w3"
              using m(1) x(1) by (intro extends_trans [OF e2] extends_heap) auto
            obtain r4 w4 where
              sf4: "show_frame percentile mean_proj ''Mean across time'' ?w3 = (r4, w4)"
              by (cases "show_frame percentile mean_proj ''Mean across time'' ?w3")
            have "extends ?k ?w3 (snd (show_frame percentile mean_proj ''Mean across time'' ?w3))"
              using extends_length [OF e4] by (rule show_frame_extends)
            then have "extends ?k ?w3 w4"
              unfolding sf4 by simp
            then have e5: "extends ?k w w4"
              by (rule extends_trans [OF e4])
            show ?thesis
            proof (cases r4)
              case (Inl e)
              then show ?thesis
                using e5 Cons Inr sf1 ok1 c mean p mx q sf4
                by (simp add: summarize_movie_def Let_def)
            next
              case ok4: (Inr u4)
              obtain r5 w5 where
                sf5: "show_frame percentile max_proj ''Max across time'' w4 = (r5, w5)"
                by (cases "show_frame percentile max_proj ''Max across time'' w4")
              have "extends ?k w4 (snd (show_frame percentile max_proj ''Max across time'' w4))"
                using extends_length [OF e5] by (rule show_frame_extends)
              then have "extends ?k w4 w5"
                unfolding sf5 by simp
              then have e6: "extends ?k w w5"
                by (rule extends_trans [OF e5])
              show ?thesis
              proof (cases r5)
                case (Inl e)
                then show ?thesis
                  using e6 Cons Inr sf1 ok1 c mean p mx q sf4 ok4 sf5
                  by (simp add: summarize_movie_def Let_def)
              next
                case ok5: (Inr u5)
                obtain cmean h6 where
                  cmean: "percentile_contrast percentile mean_proj 1 99 (heap w5) = (cmean, h6)"
                  by (cases "percentile_contrast percentile mean_proj 1 99 (heap w5)")
                let ?w6 = "emit [Imsave (path_join save_dir ''mean_projection.png'')
                                   cmean (snapshot h6 cmean)] (w5\<lparr>heap := h6\<rparr>)"
                obtain cmax h7 where
                  cmax: "percentile_contrast percentile max_proj 1 99 (heap ?w6) = (cmax, h7)"
                  by (cases "percentile_contrast percentile max_proj 1 99 (heap ?w6)")
                let ?w7 = "emit [Imsave (path_join save_dir ''max_projection.png'')
                                   cmax (snapshot h7 cmax)] (?w6\<lparr>heap := h7\<rparr>)"
                let ?w8 = "save_as_tiff mean_proj (path_join save_dir ''mean_projection.tif'')
                             UInt16 ?w7"
                let ?w9 = "save_as_tiff max_proj (path_join save_dir ''max_projection.tif'')
                             UInt16 ?w8"
                let ?w10 = "emit [Print [Str (''[OK] Saved previews to '' @ save_dir)]] ?w9"
                have "extends ?k w5 ?w10"
                  using summarize_movie_tail [OF extends_length [OF e6] km cmean refl cmax refl
                      refl refl] .
                then have "extends ?k w ?w10"
                  by (rule extends_trans [OF e6])
                moreover have "snd (summarize_movie percentile data save_dir w) = ?w10"
                  using Cons Inr sf1 ok1 c mean p mx q sf4 ok4 sf5 ok5 cmean cmax
                  by (simp add: summarize_movie_def Let_def)
                ultimately show ?thesis
                  by simp
              qed
            qed
          qed
        qed
      qed
    qed
  qed
qed

subsection \<open>The driver\<close>

lemma axis0_message_dom:
  "dom meta' = dom meta \<Longrightarrow> axis0_message desc meta' axis0 = axis0_message desc meta axis0"
proof -
  assume "dom meta' = dom meta"
  then have "(meta' ''frames'' \<noteq> None) = (meta ''frames'' \<noteq> None)"
    by (metis domIff)
  then show ?thesis
    by (simp add: axis0_message_def)
qed

text \<open>
  C8. For a loaded stack with three axes the driver prints, after the shape, the type,
  the extreme values and the description, one message about axis 0: TIME when the
  lower-cased description contains \<open>frames\<close> or \<open>frames\<close> is a key of the tag dictionary;
  otherwise DEPTH when the lower-cased description contains \<open>slices\<close>; otherwise the
  guess TIME. The message depends on the keys of the dictionary only, not on its values.
\<close>

theorem axis0_labelling:
  assumes "fs reader_tiff_path = Some tif"
      and "px_shape (tif_pixels tif) = [n, ny, nx]"
      and "length (px_values (tif_pixels tif)) = n * ny * nx" and "0 < n * ny * nx"
      and "desc = tif_description tif" and "meta = tif_tags tif"
      and "msg =
             (if sublist ''frames'' (lower (str_of desc)) \<or> ''frames'' \<in> dom meta
              then ''Interpreting axis 0 ('' @ str_nat n @ '') as TIME (T).''
              else if sublist ''slices'' (lower (str_of desc))
              then ''Interpreting axis 0 ('' @ str_nat n @ '') as DEPTH (Z).''
              else ''Axis 0 is '' @ str_nat n @ '' planes. Could be time or z; we guess TIME.'')"
  shows "(\<exists>lo hi after.
            trace (snd (main fs percentile w)) =
              trace w @
                [Print [Str ''Data shape:'', Shape [n, ny, nx]],
                 Print [Str ''Data dtype:'', Dtype (px_dtype (tif_pixels tif))],
                 Print [Str ''Min/Max intensity:'', Num lo, Num hi],
                 Print [Str (CHR 0x0A # ''--- IMAGEJ DESCRIPTION ---'')],
                 Print [Text desc],
                 Print [Str msg]] @ after) \<and>
         axis0_message desc meta n = msg \<and>
         (\<forall>meta'. dom meta' = dom meta \<longrightarrow> axis0_message desc meta' n = msg)"
proof -
  have msg: "axis0_message desc meta n = msg"
    unfolding assms(7) by (auto simp: axis0_message_def dom_def)
  let ?data = "\<lparr>dtype = px_dtype (tif_pixels tif), shape = [n, ny, nx],
                 buf = length (heap w), offset = 0\<rparr>"
  let ?h1 = "heap w @ [px_values (tif_pixels tif)]"
  have ld: "load_tiff_stack fs reader_tiff_path w = (Inr (?data, meta, desc), w\<lparr>heap := ?h1\<rparr>)"
    using assms(1,2,5,6) by (simp add: load_tiff_stack_def asarray_def new_array_def)
  have els: "elems ?h1 ?data = px_values (tif_pixels tif)"
    using assms(3) by (simp add: elems_def)
  have ne: "px_values (tif_pixels tif) \<noteq> []"
    using assms(3,4) by auto
  then obtain x xs where xs: "px_values (tif_pixels tif) = x # xs"
    by (cases "px_values (tif_pixels tif)") auto
  let ?w3 = "emit [Print [Str ''Min/Max intensity:'', Num (fold min xs x), Num (fold max xs x)],
                   Print [Str (CHR 0x0A # ''--- IMAGEJ DESCRIPTION ---'')],
                   Print [Text desc]]
              (emit [Print [Str ''Data shape:'', Shape [n, ny, nx]],
                     Print [Str ''Data dtype:'', Dtype (px_dtype (tif_pixels tif))]]
                 (w\<lparr>heap := ?h1\<rparr>))"
  let ?w4 = "emit [Print [Str (axis0_message desc meta n)]] ?w3"
  obtain r w5 where s: "summarize_movie percentile ?data ''previews'' ?w4 = (r, w5)"
    by (cases "summarize_movie percentile ?data ''previews'' ?w4")
  have "extends (length (heap ?w4)) ?w4 w5"
    using summarize_movie_extends [of ?w4 percentile ?data "''previews''"] s by simp
  then obtain after where after: "trace w5 = trace ?w4 @ after"
    by (auto simp: extends_def prefix_def)
  have "snd (main fs percentile w) = w5"
    using ld els xs s
    by (cases r) (simp_all add: main_def np_min_def np_max_def Let_def)
  then have "trace (snd (main fs percentile w)) =
      trace w @
        [Print [Str ''Data shape:'', Shape [n, ny, nx]],
         Print [Str ''Data dtype:'', Dtype (px_dtype (tif_pixels tif))],
         Print [Str ''Min/Max intensity:'', Num (fold min xs x), Num (fold max xs x)],
         Print [Str (CHR 0x0A # ''--- IMAGEJ DESCRIPTION ---'')],
         Print [Text desc],
         Print [Str msg]] @ after"
    using after msg by simp
  then have "\<exists>lo hi after.
            trace (snd (main fs percentile w)) =
              trace w @
                [Print [Str ''Data shape:'', Shape [n, ny, nx]],
                 Print [Str ''Data dtype:'', Dtype (px_dtype (tif_pixels tif))],
                 Print [Str ''Min/Max intensity:'', Num lo, Num hi],
                 Print [Str (CHR 0x0A # ''--- IMAGEJ DESCRIPTION ---'')],
                 Print [Text desc],
                 Print [Str msg]] @ after"
    by blast
  moreover have "\<forall>meta'. dom meta' = dom meta \<longrightarrow> axis0_message desc meta' n = msg"
    using axis0_message_dom [of _ meta desc n] msg by simp
  ultimately show ?thesis
    using msg by blast
qed

text \<open>
  A stack of two frames whose description says \<open>Slices=2\<close> and whose only tag has the
  name \<open>ImageDescription\<close> and the value \<open>frames=2\<close>: the message is DEPTH.
\<close>

theorem axis0_labelling_witness:
  "(\<exists>lo hi after.
      trace (snd (main
        [reader_tiff_path \<mapsto>
           \<lparr>tif_pixels = \<lparr>px_dtype = UInt8, px_shape = [2, 1, 2], px_values = [1, 2, 3, 4]\<rparr>,
            tif_tags = [''ImageDescription'' \<mapsto> Ascii ''frames=2''],
            tif_description = Some ''ImageJ=1.53 images=2 Slices=2''\<rparr>]
        percentile_linear \<lparr>heap = [], trace = []\<rparr>)) =
        [Print [Str ''Data shape:'', Shape [2, 1, 2]],
         Print [Str ''Data dtype:'', Dtype UInt8],
         Print [Str ''Min/Max intensity:'', Num lo, Num hi],
         Print [Str (CHR 0x0A # ''--- IMAGEJ DESCRIPTION ---'')],
         Print [Text (Some ''ImageJ=1.53 images=2 Slices=2'')],
         Print [Str ''Interpreting axis 0 (2) as DEPTH (Z).'']] @ after) \<and>
   axis0_message (Some ''ImageJ=1.53 images=2 Slices=2'')
     [''ImageDescription'' \<mapsto> Ascii ''frames=2''] 2 = ''Interpreting axis 0 (2) as DEPTH (Z).''"
proof -
  let ?tif = "\<lparr>tif_pixels = \<lparr>px_dtype = UInt8, px_shape = [2, 1, 2], px_values = [1, 2, 3, 4]\<rparr>,
            tif_tags = [''ImageDescription'' \<mapsto> Ascii ''frames=2''],
            tif_description = Some ''ImageJ=1.53 images=2 Slices=2''\<rparr>"
  have low: "lower (str_of (tif_description ?tif)) = ''imagej=1.53 images=2 slices=2''"
    by (simp add: lower_def lower_char_def str_of_def)
  have fr: "\<not> sublist ''frames'' ''imagej=1.53 images=2 slices=2''"
    by (simp add: sublist_code)
  have sl: "sublist ''slices'' ''imagej=1.53 images=2 slices=2''"
    by (simp add: sublist_code)
  have key: "''frames'' \<notin> dom (tif_tags ?tif)"
    by simp
  have n: "str_nat 2 = ''2''"
    by (simp add: str_nat.simps digit_char_def)
  have msg: "(if sublist ''frames'' (lower (str_of (tif_description ?tif))) \<or>
                 ''frames'' \<in> dom (tif_tags ?tif)
              then ''Interpreting axis 0 ('' @ str_nat 2 @ '') as TIME (T).''
              else if sublist ''slices'' (lower (str_of (tif_description ?tif)))
              then ''Interpreting axis 0 ('' @ str_nat 2 @ '') as DEPTH (Z).''
              else ''Axis 0 is '' @ str_nat 2 @ '' planes. Could be time or z; we guess TIME.'')
             = ''Interpreting axis 0 (2) as DEPTH (Z).''"
    unfolding low n using fr sl key by simp
  have f: "[reader_tiff_path \<mapsto> ?tif] reader_tiff_path = Some ?tif"
    by simp
  have s: "px_shape (tif_pixels ?tif) = [2, 1, 2]"
    by simp
  have l: "length (px_values (tif_pixels ?tif)) = 2 * 1 * 2" and p: "(0 :: nat) < 2 * 1 * 2"
    by simp_all
  from axis0_labelling [where fs = "[reader_tiff_path \<mapsto> ?tif]" and tif = ?tif
      and percentile = percentile_linear and w = "\<lparr>heap = [], trace = []\<rparr>",
      OF f s l p refl refl refl, unfolded msg]
  show ?thesis
    by simp
qed

subsection \<open>play_movie\<close>

lemma contrast_pixels_cong:
  assumes "elems h1 a = elems h2 a"
  shows "contrast_pixels percentile a h1 = contrast_pixels percentile a h2"
proof -
  obtain o1 g1 where r1: "percentile_contrast percentile a 1 99 h1 = (o1, g1)"
    by (cases "percentile_contrast percentile a 1 99 h1")
  obtain o2 g2 where r2: "percentile_contrast percentile a 1 99 h2 = (o2, g2)"
    by (cases "percentile_contrast percentile a 1 99 h2")
  show ?thesis
  proof (cases "percentile (elems h1 a) 99 = percentile (elems h1 a) 1")
    case True
    obtain z1 k1 where z1: "np_zeros_like a Float32 h1 = (z1, k1)"
      by (cases "np_zeros_like a Float32 h1")
    obtain z2 k2 where z2: "np_zeros_like a Float32 h2 = (z2, k2)"
      by (cases "np_zeros_like a Float32 h2")
    have c1: "np_clip z1 0 1 k1 = (o1, g1)"
      using True r1 z1 by (simp add: percentile_contrast_def Let_def)
    have c2: "np_clip z2 0 1 k2 = (o2, g2)"
      using True r2 z2 assms by (simp add: percentile_contrast_def Let_def)
    have "snapshot g1 o1 = snapshot g2 o2"
      using np_clip_res(1,2,6) [OF c1] np_clip_res(1,2,6) [OF c2]
        np_zeros_like_res(1,2,6) [OF z1] np_zeros_like_res(1,2,6) [OF z2] assms
      by (simp add: snapshot_def)
    then show ?thesis
      using r1 r2 by (simp add: contrast_pixels_def)
  next
    case False
    then have ne2: "percentile (elems h2 a) 99 \<noteq> percentile (elems h2 a) 1"
      using assms by simp
    note s1 = percentile_contrast_stretch_elems [OF False r1]
    note s2 = percentile_contrast_stretch_elems [OF ne2 r2]
    have "snapshot g1 o1 = snapshot g2 o2"
      using s1 s2 assms by (simp add: snapshot_def)
    then show ?thesis
      using r1 r2 by (simp add: contrast_pixels_def)
  qed
qed

lemma contrast_pixels_prefix:
  assumes "prefix h h'" and "buf a < length h"
  shows "contrast_pixels percentile a h' = contrast_pixels percentile a h"
proof -
  have "elems h' a = elems h a"
    using assms by (auto simp: prefix_def elems_def nth_append)
  then show ?thesis
    by (rule contrast_pixels_cong)
qed

lemma getitem_in_range:
  assumes "shape data = n # rest" and "0 \<le> i" and "i < int n"
  shows "getitem data i = Inr (frame_view data (nat i))"
  using assms by (simp add: getitem_def)

text \<open>One step of the animation: frame \<open>i\<close> is stretched and set, and the title names it.\<close>

lemma play_movie_update_sets:
  assumes "shape data = n # rest" and "0 \<le> i" and "i < int n"
      and "prefix h0 (heap w)" and "buf data < length h0"
  shows "\<exists>a w'. play_movie_update percentile data i w = (Inr (), w') \<and>
           prefix (heap w) (heap w') \<and>
           trace w' = trace w @
             [Set_array a (contrast_pixels percentile (frame_view data (nat i)) h0),
              Set_title (''Frame '' @ str_int (i + 1) @ ''/'' @ str_nat n)]"
proof -
  let ?fr = "frame_view data (nat i)"
  obtain img h1 where c: "percentile_contrast percentile ?fr 1 99 (heap w) = (img, h1)"
    by (cases "percentile_contrast percentile ?fr 1 99 (heap w)")
  have b: "buf ?fr < length h0"
    using assms(5) by (simp add: frame_view_def)
  have "contrast_pixels percentile ?fr (heap w) = contrast_pixels percentile ?fr h0"
    using assms(4) b by (rule contrast_pixels_prefix)
  then have px: "snapshot h1 img = contrast_pixels percentile ?fr h0"
    using c by (simp add: contrast_pixels_def)
  have "play_movie_update percentile data i w =
      (Inr (), emit [Set_array img (snapshot h1 img),
                     Set_title (''Frame '' @ str_int (i + 1) @ ''/'' @ str_nat n)]
                 (w\<lparr>heap := h1\<rparr>))"
    using getitem_in_range [OF assms(1-3)] c assms(1)
    by (simp add: play_movie_update_def)
  then show ?thesis
    using px percentile_contrast_grows(1) [OF c] by auto
qed

text \<open>A pass over frames that are all in range sets every one of them, in order.\<close>

lemma run_frames_plays:
  assumes "shape data = n # rest" and "buf data < length h0"
      and "\<forall>i \<in> set frames. 0 \<le> i \<and> i < int n" and "prefix h0 (heap w)"
  shows "\<exists>arrs w'. run_frames (play_movie_update percentile data) frames w = (Inr (), w') \<and>
           length arrs = length frames \<and>
           trace w' = trace w @
             concat (map (\<lambda>(a, i).
                            [Set_array a (contrast_pixels percentile (frame_view data (nat i)) h0),
                             Set_title (''Frame '' @ str_int (i + 1) @ ''/'' @ str_nat n)])
                       (zip arrs frames))"
  using assms(3,4)
proof (induction frames arbitrary: w)
  case Nil
  show ?case
    by simp
next
  case (Cons i frames)
  have i: "0 \<le> i" "i < int n"
    using Cons.prems(1) by simp_all
  from play_movie_update_sets [OF assms(1) i Cons.prems(2) assms(2), of percentile]
  obtain a w1 where
    u: "play_movie_update percentile data i w = (Inr (), w1)" and
    p: "prefix (heap w) (heap w1)" and
    t: "trace w1 = trace w @
          [Set_array a (contrast_pixels percentile (frame_view data (nat i)) h0),
           Set_title (''Frame '' @ str_int (i + 1) @ ''/'' @ str_nat n)]"
    by blast
  have "prefix h0 (heap w1)"
    using Cons.prems(2) p by (rule prefix_order.trans)
  moreover have "\<forall>i \<in> set frames. 0 \<le> i \<and> i < int n"
    using Cons.prems(1) by simp
  ultimately obtain arrs w' where
    r: "run_frames (play_movie_update percentile data) frames w1 = (Inr (), w')" and
    l: "length arrs = length frames" and
    t': "trace w' = trace w1 @
          concat (map (\<lambda>(a, i).
                         [Set_array a (contrast_pixels percentile (frame_view data (nat i)) h0),
                          Set_title (''Frame '' @ str_int (i + 1) @ ''/'' @ str_nat n)])
                    (zip arrs frames))"
    using Cons.IH [of w1] by blast
  show ?case
    using u r l t t' by (intro exI [of _ "a # arrs"] exI [of _ w']) simp
qed

text \<open>
  C10. \<^verbatim>\<open>play_movie\<close> with \<^verbatim>\<open>stop=0\<close> does what it does with \<^verbatim>\<open>stop\<close> omitted: the zero is
  replaced by the length of the stack. For a stack of \<open>n\<close> frames and a start frame in
  range, the first frame is shown, the animation is given the frames from \<open>start\<close> to
  \<open>n - 1\<close>, not an empty range, and in its pass every one of these frames is stretched and
  set, in order, under the title that names it; from \<open>start = 0\<close> that is the whole stack.
\<close>

theorem play_movie_stop_zero:
  "play_movie percentile data start (Some 0) fps w = play_movie percentile data start None fps w \<and>
   (shape data = [n, ny, nx] \<and> valid_array (heap w) data \<and> 0 \<le> start \<and> start < int n \<and>
    fps \<noteq> 0 \<longrightarrow>
      fst (play_movie percentile data start (Some 0) fps w) = Inr () \<and>
      (\<exists>a0 arrs.
         length arrs = length [start..int n - 1] \<and>
         trace (snd (play_movie percentile data start (Some 0) fps w)) =
           trace w @
             [Imshow a0 (contrast_pixels percentile (frame_view data (nat start)) (heap w)),
              Axis_off,
              FuncAnimation [start..int n - 1] (1000 / real_of_int fps),
              Plt_show] @
             concat (map (\<lambda>(a, i).
                            [Set_array a
                               (contrast_pixels percentile (frame_view data (nat i)) (heap w)),
                             Set_title (''Frame '' @ str_int (i + 1) @ ''/'' @ str_nat n)])
                       (zip arrs [start..int n - 1]))))"
proof -
  have eq: "play_movie percentile data start (Some 0) fps w =
      play_movie percentile data start None fps w"
    by (simp add: play_movie_def stop_or_length_def)
  have run: "fst (play_movie percentile data start (Some 0) fps w) = Inr () \<and>
      (\<exists>a0 arrs.
         length arrs = length [start..int n - 1] \<and>
         trace (snd (play_movie percentile data start (Some 0) fps w)) =
           trace w @
             [Imshow a0 (contrast_pixels percentile (frame_view data (nat start)) (heap w)),
              Axis_off,
              FuncAnimation [start..int n - 1] (1000 / real_of_int fps),
              Plt_show] @
             concat (map (\<lambda>(a, i).
                            [Set_array a
                               (contrast_pixels percentile (frame_view data (nat i)) (heap w)),
                             Set_title (''Frame '' @ str_int (i + 1) @ ''/'' @ str_nat n)])
                       (zip arrs [start..int n - 1])))"
    if sh: "shape data = [n, ny, nx]" and v: "valid_array (heap w) data"
      and s0: "0 \<le> start" and s1: "start < int n" and f: "fps \<noteq> 0"
  proof -
    let ?fr = "frame_view data (nat start)"
    have sh': "shape data = n # [ny, nx]"
      using sh by simp
    have len: "stop_or_length (Some 0) data = Inr (int n)"
      using sh by (simp add: stop_or_length_def)
    have g: "getitem data start = Inr ?fr"
      using getitem_in_range [OF sh' s0 s1] .
    have b: "buf data < length (heap w)"
      using v by (simp add: valid_array_def)
    obtain img h1 where c: "percentile_contrast percentile ?fr 1 99 (heap w) = (img, h1)"
      by (cases "percentile_contrast percentile ?fr 1 99 (heap w)")
    have "shape img = [ny, nx]"
      using percentile_contrast_shape [OF c] sh by (simp add: frame_view_def)
    then have ok: "image_shape_ok (shape img)"
      by (simp add: image_shape_ok_def)
    have px: "snapshot h1 img = contrast_pixels percentile ?fr (heap w)"
      using c by (simp add: contrast_pixels_def)
    let ?w2 = "emit [FuncAnimation [start..int n - 1] (1000 / real_of_int fps), Plt_show]
                 (emit [Imshow img (snapshot h1 img), Axis_off] (w\<lparr>heap := h1\<rparr>))"
    have pm: "play_movie percentile data start (Some 0) fps w =
        run_frames (play_movie_update percentile data) [start..int n - 1] ?w2"
      using len g c ok f by (simp add: play_movie_def Let_def)
    have "prefix (heap w) (heap ?w2)"
      using percentile_contrast_grows(1) [OF c] by simp
    moreover have "\<forall>i \<in> set [start..int n - 1]. 0 \<le> i \<and> i < int n"
      using s0 by auto
    ultimately obtain arrs w' where
      r: "run_frames (play_movie_update percentile data) [start..int n - 1] ?w2 = (Inr (), w')" and
      l: "length arrs = length [start..int n - 1]" and
      t: "trace w' = trace ?w2 @
            concat (map (\<lambda>(a, i).
                           [Set_array a
                              (contrast_pixels percentile (frame_view data (nat i)) (heap w)),
                            Set_title (''Frame '' @ str_int (i + 1) @ ''/'' @ str_nat n)])
                      (zip arrs [start..int n - 1]))"
      using run_frames_plays [OF sh' b, of "[start..int n - 1]" ?w2 percentile] by blast
    show ?thesis
      using pm r l t px by (intro conjI exI [of _ img] exI [of _ arrs]) simp_all
  qed
  from eq run show ?thesis
    by blast
qed

text \<open>
  A stack of two frames of 1 by 5 pixels, played from frame 0 with \<^verbatim>\<open>stop=0\<close> at 30
  frames a second: both frames are set.
\<close>

theorem play_movie_stop_zero_witness:
  "play_movie percentile_linear \<lparr>dtype = UInt8, shape = [2, 1, 5], buf = 0, offset = 0\<rparr>
       0 (Some 0) 30 \<lparr>heap = [[0, 0, 5, 10, 10, 20, 20, 10, 0, 0]], trace = []\<rparr> =
     play_movie percentile_linear \<lparr>dtype = UInt8, shape = [2, 1, 5], buf = 0, offset = 0\<rparr>
       0 None 30 \<lparr>heap = [[0, 0, 5, 10, 10, 20, 20, 10, 0, 0]], trace = []\<rparr> \<and>
   fst (play_movie percentile_linear \<lparr>dtype = UInt8, shape = [2, 1, 5], buf = 0, offset = 0\<rparr>
       0 (Some 0) 30 \<lparr>heap = [[0, 0, 5, 10, 10, 20, 20, 10, 0, 0]], trace = []\<rparr>) = Inr () \<and>
   (\<exists>a0 a1 a2.
      trace (snd (play_movie percentile_linear
          \<lparr>dtype = UInt8, shape = [2, 1, 5], buf = 0, offset = 0\<rparr>
          0 (Some 0) 30 \<lparr>heap = [[0, 0, 5, 10, 10, 20, 20, 10, 0, 0]], trace = []\<rparr>)) =
        [Imshow a0 \<lparr>px_dtype = Float64, px_shape = [1, 5], px_values = [0, 0, 1 / 2, 1, 1]\<rparr>,
         Axis_off,
         FuncAnimation [0, 1] (100 / 3),
         Plt_show,
         Set_array a1 \<lparr>px_dtype = Float64, px_shape = [1, 5], px_values = [0, 0, 1 / 2, 1, 1]\<rparr>,
         Set_title ''Frame 1/2'',
         Set_array a2 \<lparr>px_dtype = Float64, px_shape = [1, 5], px_values = [1, 1, 1 / 2, 0, 0]\<rparr>,
         Set_title ''Frame 2/2''])"
proof -
  let ?d = "\<lparr>dtype = UInt8, shape = [2, 1, 5], buf = 0, offset = 0\<rparr>"
  let ?h = "[[0, 0, 5, 10, 10, 20, 20, 10, 0, 0 :: real]]"
  let ?w = "\<lparr>heap = ?h, trace = []\<rparr>"
  have sh: "shape ?d = [2, 1, 5]"
    by simp
  have v: "valid_array (heap ?w) ?d"
    by (simp add: valid_array_def)
  have st: "(0 :: int) \<le> 0" "(0 :: int) < int 2" "(30 :: int) \<noteq> 0"
    by simp_all
  have fr: "[0..int 2 - 1] = [0, 1]"
    by (simp add: upto.simps)
  have iv: "1000 / real_of_int 30 = 100 / 3"
    by simp
  have e0: "elems ?h (frame_view ?d (nat 0)) = [0, 0, 5, 10, 10]"
    and e1: "elems ?h (frame_view ?d (nat 1)) = [20, 20, 10, 0, 0]"
    by (simp_all add: elems_def frame_view_def)
  have p0: "percentile_linear [0, 0, 5, 10, 10] 1 = 0" "percentile_linear [0, 0, 5, 10, 10] 99 = 10"
    and p1: "percentile_linear [20, 20, 10, 0, 0] 1 = 0" "percentile_linear [20, 20, 10, 0, 0] 99 = 20"
    by (simp_all add: percentile_linear_def Let_def)
  have c: "fl Float32 5 = 5" "fl Float32 10 = 10" "fl Float32 20 = 20"
    "fl Float64 5 = 5" "fl Float64 10 = 10" "fl Float64 20 = 20" "fl Float64 (1 / 2) = 1 / 2"
    by (simp_all add: fl_eval)
  obtain o0 g0 where r0: "percentile_contrast percentile_linear (frame_view ?d (nat 0)) 1 99 ?h
      = (o0, g0)"
    by (cases "percentile_contrast percentile_linear (frame_view ?d (nat 0)) 1 99 ?h")
  obtain o1 g1 where r1: "percentile_contrast percentile_linear (frame_view ?d (nat 1)) 1 99 ?h
      = (o1, g1)"
    by (cases "percentile_contrast percentile_linear (frame_view ?d (nat 1)) 1 99 ?h")
  have n0: "percentile_linear (elems ?h (frame_view ?d (nat 0))) 99 \<noteq>
      percentile_linear (elems ?h (frame_view ?d (nat 0))) 1"
    unfolding e0 p0 by simp
  have n1: "percentile_linear (elems ?h (frame_view ?d (nat 1))) 99 \<noteq>
      percentile_linear (elems ?h (frame_view ?d (nat 1))) 1"
    unfolding e1 p1 by simp
  have px0: "contrast_pixels percentile_linear (frame_view ?d (nat 0)) (heap ?w) =
      \<lparr>px_dtype = Float64, px_shape = [1, 5], px_values = [0, 0, 1 / 2, 1, 1]\<rparr>"
    using percentile_contrast_stretch_elems [OF n0 r0, unfolded e0 p0] r0
    by (simp add: contrast_pixels_def snapshot_def frame_view_def c)
  have px1: "contrast_pixels percentile_linear (frame_view ?d (nat 1)) (heap ?w) =
      \<lparr>px_dtype = Float64, px_shape = [1, 5], px_values = [1, 1, 1 / 2, 0, 0]\<rparr>"
    using percentile_contrast_stretch_elems [OF n1 r1, unfolded e1 p1] r1
    by (simp add: contrast_pixels_def snapshot_def frame_view_def c)
  have t1: "str_int (0 + 1) = ''1''" "str_int (1 + 1) = ''2''" "str_nat 2 = ''2''"
    by (simp_all add: str_int_def str_nat.simps digit_char_def)
  note t = play_movie_stop_zero [of percentile_linear ?d 0 30 ?w 2 1 5]
  note eq = t [THEN conjunct1]
  note run = t [THEN conjunct2, THEN mp, OF conjI [OF sh conjI [OF v conjI [OF st(1)
      conjI [OF st(2) st(3)]]]], unfolded fr iv]
  from run obtain a0 arrs where
    l: "length arrs = length [0, 1 :: int]" and
    tr: "trace (snd (play_movie percentile_linear ?d 0 (Some 0) 30 ?w)) =
           trace ?w @
             [Imshow a0 (contrast_pixels percentile_linear (frame_view ?d (nat 0)) (heap ?w)),
              Axis_off, FuncAnimation [0, 1] (100 / 3), Plt_show] @
             concat (map (\<lambda>(a, i).
                            [Set_array a
                               (contrast_pixels percentile_linear (frame_view ?d (nat i)) (heap ?w)),
                             Set_title (''Frame '' @ str_int (i + 1) @ ''/'' @ str_nat 2)])
                       (zip arrs [0, 1]))"
    by blast
  from l obtain a1 a2 where arrs: "arrs = [a1, a2]"
    by (auto simp: length_Suc_conv)
  have "trace (snd (play_movie percentile_linear ?d 0 (Some 0) 30 ?w)) =
        [Imshow a0 \<lparr>px_dtype = Float64, px_shape = [1, 5], px_values = [0, 0, 1 / 2, 1, 1]\<rparr>,
         Axis_off, FuncAnimation [0, 1] (100 / 3), Plt_show,
         Set_array a1 \<lparr>px_dtype = Float64, px_shape = [1, 5], px_values = [0, 0, 1 / 2, 1, 1]\<rparr>,
         Set_title ''Frame 1/2'',
         Set_array a2 \<lparr>px_dtype = Float64, px_shape = [1, 5], px_values = [1, 1, 1 / 2, 0, 0]\<rparr>,
         Set_title ''Frame 2/2'']"
    unfolding tr arrs using px0 px1 t1 by simp
  with eq run show ?thesis
    by blast
qed

subsection \<open>summarize_movie\<close>

lemma np_mean_axis0_Inr:
  assumes "shape data = n # rest"
  shows "np_mean_axis0 data h =
           Inr (\<lparr>dtype = (if is_float (dtype data) then dtype data else Float64), shape = rest,
                  buf = length h, offset = 0\<rparr>,
                h @ [map (\<lambda>j. (\<Sum>t\<leftarrow>[0..<n]. elems h data ! (t * prod_list rest + j)) / real n)
                       [0..<prod_list rest]])"
  using assms by (simp add: np_mean_axis0_def new_array_def Let_def)

lemma np_max_axis0_Inr:
  assumes "shape data = n # rest" and "0 < n"
  shows "np_max_axis0 data h =
           Inr (\<lparr>dtype = dtype data, shape = rest, buf = length h, offset = 0\<rparr>,
                h @ [map (\<lambda>j. fold max (map (\<lambda>t. elems h data ! (t * prod_list rest + j)) [1..<n])
                                 (elems h data ! j))
                       [0..<prod_list rest]])"
  using assms by (simp add: np_max_axis0_def new_array_def Let_def)

lemma getitem_frame_Inr:
  assumes "getitem_frame data t = Inr fr"
  shows "fr = frame_view data t" "t < hd (shape data)" "shape fr = tl (shape data)"
  using assms by (auto simp: getitem_frame_def frame_view_def split: if_splits)

lemma show_frame_ok:
  assumes "image_shape_ok (shape frame2d)"
  obtains w1 where "show_frame percentile frame2d title w = (Inr (), w1)"
    and "extends 0 w w1"
proof -
  obtain r1 w1 where s: "show_frame percentile frame2d title w = (r1, w1)"
    by (cases "show_frame percentile frame2d title w")
  have "fst (show_frame percentile frame2d title w) = Inr ()"
    using assms by (rule show_frame_Inr)
  then have "r1 = Inr ()"
    using s by simp
  moreover have "extends 0 w (snd (show_frame percentile frame2d title w))"
    by (rule show_frame_extends) simp
  then have "extends 0 w w1"
    using s by simp
  ultimately show ?thesis
    using s that by simp
qed

lemma summarize_movie_success:
  assumes sh: "shape data = n # rest" and fr: "getitem_frame data (n div 2) = Inr fr"
      and n: "0 < n" and ok: "image_shape_ok rest"
  shows "\<exists>h2 mean h3 mx h4.
           prefix (heap w) h2 \<and>
           np_mean_axis0 data h2 = Inr (mean, h3) \<and>
           np_max_axis0 data h3 = Inr (mx, h4) \<and>
           prefix h4 (heap (snd (summarize_movie percentile data save_dir w))) \<and>
           fst (summarize_movie percentile data save_dir w) =
             Inr \<lparr>the_mid_t = n div 2, the_mid_frame = fr, the_mean_proj = mean,
                   the_max_proj = mx\<rparr>"
proof -
  let ?w0 = "emit [Mkdir save_dir] w"
  have okf: "image_shape_ok (shape fr)"
    using getitem_frame_Inr(3) [OF fr] sh ok by simp
  obtain w1 where sf1: "show_frame percentile fr
      (''Frame '' @ str_nat (n div 2) @ ''/'' @ str_nat n) ?w0 = (Inr (), w1)"
    and x1: "extends 0 ?w0 w1"
    using show_frame_ok [OF okf] by blast
  have "extends 0 w ?w0"
    by (rule extends_emit) (simp add: fresh_calls_def)
  then have e1: "extends 0 w w1"
    using x1 by (rule extends_trans)
  obtain c h2 where c: "percentile_contrast percentile fr 1 99 (heap w1) = (c, h2)"
    by (cases "percentile_contrast percentile fr 1 99 (heap w1)")
  let ?w2 = "emit [Imsave (path_join save_dir (''frame_'' @ pad4 (n div 2) @ ''.png''))
                     c (snapshot h2 c)] (w1\<lparr>heap := h2\<rparr>)"
  have p2: "prefix (heap w) h2"
    using extends_mono [OF e1] percentile_contrast_grows(1) [OF c]
    by (rule prefix_order.trans)
  obtain mean h3 where mean: "np_mean_axis0 data h2 = Inr (mean, h3)"
    using np_mean_axis0_Inr [OF sh] by blast
  obtain mx h4 where mx: "np_max_axis0 data h3 = Inr (mx, h4)"
    using np_max_axis0_Inr [OF sh n] by blast
  have okm: "image_shape_ok (shape mean)" "image_shape_ok (shape mx)"
    using mean mx ok np_mean_axis0_Inr [OF sh, of h2] np_max_axis0_Inr [OF sh n, of h3]
    by auto
  let ?w3 = "?w2\<lparr>heap := h4\<rparr>"
  obtain w4 where sf4: "show_frame percentile mean ''Mean across time'' ?w3 = (Inr (), w4)"
    and x4: "extends 0 ?w3 w4"
    using show_frame_ok [OF okm(1)] by blast
  obtain w5 where sf5: "show_frame percentile mx ''Max across time'' w4 = (Inr (), w5)"
    and x5: "extends 0 w4 w5"
    using show_frame_ok [OF okm(2)] by blast
  obtain cmean h6 where
    cmean: "percentile_contrast percentile mean 1 99 (heap w5) = (cmean, h6)"
    by (cases "percentile_contrast percentile mean 1 99 (heap w5)")
  let ?w6 = "emit [Imsave (path_join save_dir ''mean_projection.png'')
                     cmean (snapshot h6 cmean)] (w5\<lparr>heap := h6\<rparr>)"
  obtain cmax h7 where
    cmax: "percentile_contrast percentile mx 1 99 (heap ?w6) = (cmax, h7)"
    by (cases "percentile_contrast percentile mx 1 99 (heap ?w6)")
  let ?w7 = "emit [Imsave (path_join save_dir ''max_projection.png'')
                     cmax (snapshot h7 cmax)] (?w6\<lparr>heap := h7\<rparr>)"
  let ?w8 = "save_as_tiff mean (path_join save_dir ''mean_projection.tif'') UInt16 ?w7"
  let ?w9 = "save_as_tiff mx (path_join save_dir ''max_projection.tif'') UInt16 ?w8"
  let ?w10 = "emit [Print [Str (''[OK] Saved previews to '' @ save_dir)]] ?w9"
  have "extends 0 w5 ?w10"
    by (rule summarize_movie_tail [OF _ _ _ cmean refl cmax refl refl refl]) simp_all
  then have "extends 0 ?w3 ?w10"
    by (intro extends_trans [OF x4] extends_trans [OF x5])
  then have p4: "prefix h4 (heap ?w10)"
    using extends_mono by fastforce
  have run: "summarize_movie percentile data save_dir w =
      (Inr \<lparr>the_mid_t = n div 2, the_mid_frame = fr, the_mean_proj = mean, the_max_proj = mx\<rparr>,
       ?w10)"
    using sh fr sf1 c mean mx sf4 sf5 cmean cmax by (simp add: summarize_movie_def Let_def)
  show ?thesis
    using p2 mean mx p4 run by (intro exI [of _ h2] exI [of _ mean] exI [of _ h3] exI [of _ mx]
        exI [of _ h4]) simp
qed

lemma elems_prefix:
  assumes "prefix h h'" and "buf a < length h"
  shows "elems h' a = elems h a"
  using assms by (auto simp: prefix_def elems_def nth_append)






subsection \<open>The input arrays are only read\<close>

lemma prefix_take: "prefix xs ys \<Longrightarrow> take (length xs) ys = xs"
  by (auto simp: prefix_def)

lemma show_frame_Inl:
  assumes "\<not> image_shape_ok (shape frame2d)"
  shows "\<exists>w1. show_frame percentile frame2d title w = (Inl TypeError, w1)"
proof -
  obtain out h' where r: "percentile_contrast percentile frame2d 1 99 (heap w) = (out, h')"
    by (cases "percentile_contrast percentile frame2d 1 99 (heap w)")
  then show ?thesis
    using assms percentile_contrast_shape [OF r] by (simp add: show_frame_def Let_def)
qed

lemma summarize_movie_Inr:
  assumes "fst (summarize_movie percentile data save_dir w) = Inr s"
  shows "\<exists>n rest fr. shape data = n # rest \<and> getitem_frame data (n div 2) = Inr fr \<and> 0 < n \<and>
           image_shape_ok rest"
proof (cases "shape data")
  case Nil
  with assms show ?thesis
    by (simp add: summarize_movie_def Let_def)
next
  case (Cons n rest)
  show ?thesis
  proof (cases "getitem_frame data (n div 2)")
    case (Inl e)
    with assms Cons show ?thesis
      by (simp add: summarize_movie_def Let_def)
  next
    case (Inr fr)
    then have "n div 2 < n"
      using Cons by (auto simp: getitem_frame_def split: if_splits)
    then have n: "0 < n"
      by simp
    have "image_shape_ok (shape fr)"
    proof (rule ccontr)
      assume "\<not> image_shape_ok (shape fr)"
      from show_frame_Inl [OF this] obtain w1 where
        "show_frame percentile fr (''Frame '' @ str_nat (n div 2) @ ''/'' @ str_nat n)
           (emit [Mkdir save_dir] w) = (Inl TypeError, w1)"
        by blast
      then have "fst (summarize_movie percentile data save_dir w) = Inl TypeError"
        using Cons Inr by (simp add: summarize_movie_def Let_def)
      with assms show False
        by simp
    qed
    then have "image_shape_ok rest"
      using getitem_frame_Inr(3) [OF Inr] Cons by simp
    with Cons Inr n show ?thesis
      by simp
  qed
qed

text \<open>
  C9. \<^verbatim>\<open>percentile_contrast\<close> and \<^verbatim>\<open>summarize_movie\<close> leave their input as it was. Every
  buffer that was in the store before the call is there after it with the same values,
  so the elements of the input are the same. The result of \<^verbatim>\<open>percentile_contrast\<close>,
  the two projections, and every array that is shown or written to a file (the
  contrast-stretched images and the TIFF payloads) live in buffers allocated during the
  call. The middle frame itself is a view of the stack's buffer; it is only read.
\<close>

theorem inputs_unchanged:
  assumes "valid_array h img2d"
      and "percentile_contrast percentile img2d low high h = (out, h')"
      and "valid_array (heap w) data"
      and "summarize_movie percentile data save_dir w = (r, w')"
  shows "take (length h) h' = h \<and>
         elems h' img2d = elems h img2d \<and>
         length h \<le> buf out \<and>
         take (length (heap w)) (heap w') = heap w \<and>
         elems (heap w') data = elems (heap w) data \<and>
         take (length (trace w)) (trace w') = trace w \<and>
         fresh_calls (length (heap w)) (drop (length (trace w)) (trace w')) \<and>
         (\<forall>s. r = Inr s \<longrightarrow>
            buf (the_mid_frame s) = buf data \<and>
            length (heap w) \<le> buf (the_mean_proj s) \<and>
            length (heap w) \<le> buf (the_max_proj s))"
proof -
  note pc = percentile_contrast_grows [OF assms(2)]
  have b1: "buf img2d < length h" and b2: "buf data < length (heap w)"
    using assms(1,3) by (simp_all add: valid_array_def)
  have e: "extends (length (heap w)) w w'"
    using summarize_movie_extends [of w percentile data save_dir] assms(4) by simp
  then have pw: "prefix (heap w) (heap w')" and pt: "prefix (trace w) (trace w')"
    and fr: "fresh_calls (length (heap w)) (drop (length (trace w)) (trace w'))"
    by (simp_all add: extends_def)
  have res: "buf (the_mid_frame s) = buf data \<and>
      length (heap w) \<le> buf (the_mean_proj s) \<and> length (heap w) \<le> buf (the_max_proj s)"
    if "r = Inr s" for s
  proof -
    from that assms(4) have "fst (summarize_movie percentile data save_dir w) = Inr s"
      by simp
    from summarize_movie_Inr [OF this] obtain n rest fr where
      sh: "shape data = n # rest" and g: "getitem_frame data (n div 2) = Inr fr" and n: "0 < n"
      and ok: "image_shape_ok rest"
      by blast
    from summarize_movie_success [OF sh g n ok, of w percentile save_dir] assms(4) that
    obtain h2 mean h3 mx h4 where
      p2: "prefix (heap w) h2" and
      mean: "np_mean_axis0 data h2 = Inr (mean, h3)" and
      mx: "np_max_axis0 data h3 = Inr (mx, h4)" and
      s: "s = \<lparr>the_mid_t = n div 2, the_mid_frame = fr, the_mean_proj = mean,
                the_max_proj = mx\<rparr>"
      by auto
    note gm = np_mean_axis0_grows [OF mean] and gx = np_max_axis0_grows [OF mx]
    have "length (heap w) \<le> length h2"
      using p2 by (rule prefix_length_le)
    moreover have "fr = frame_view data (n div 2)"
      using g by (auto simp: getitem_frame_def split: if_splits)
    ultimately show ?thesis
      using gm(2,3) gx(2) s by (simp add: frame_view_def)
  qed
  show ?thesis
    using prefix_take [OF pc(1)] elems_prefix [OF pc(1) b1] pc(2)
      prefix_take [OF pw] elems_prefix [OF pw b2] prefix_take [OF pt] fr res
    by blast
qed

text \<open>A stack of two frames of 1 by 2 pixels in a store that holds nothing else.\<close>

theorem inputs_unchanged_witness:
  "valid_array [[1, 2, 3, 4]] \<lparr>dtype = UInt8, shape = [2, 1, 2], buf = 0, offset = 0\<rparr> \<and>
   take 1 (snd (percentile_contrast percentile_linear
     \<lparr>dtype = UInt8, shape = [2, 1, 2], buf = 0, offset = 0\<rparr> 1 99 [[1, 2, 3, 4]])) =
     [[1, 2, 3, 4]] \<and>
   1 \<le> buf (fst (percentile_contrast percentile_linear
     \<lparr>dtype = UInt8, shape = [2, 1, 2], buf = 0, offset = 0\<rparr> 1 99 [[1, 2, 3, 4]])) \<and>
   take 1 (heap (snd (summarize_movie percentile_linear
     \<lparr>dtype = UInt8, shape = [2, 1, 2], buf = 0, offset = 0\<rparr> ''previews''
     \<lparr>heap = [[1, 2, 3, 4]], trace = []\<rparr>))) = [[1, 2, 3, 4]] \<and>
   elems (heap (snd (summarize_movie percentile_linear
     \<lparr>dtype = UInt8, shape = [2, 1, 2], buf = 0, offset = 0\<rparr> ''previews''
     \<lparr>heap = [[1, 2, 3, 4]], trace = []\<rparr>)))
     \<lparr>dtype = UInt8, shape = [2, 1, 2], buf = 0, offset = 0\<rparr> = [1, 2, 3, 4] \<and>
   fresh_calls 1 (trace (snd (summarize_movie percentile_linear
     \<lparr>dtype = UInt8, shape = [2, 1, 2], buf = 0, offset = 0\<rparr> ''previews''
     \<lparr>heap = [[1, 2, 3, 4]], trace = []\<rparr>)))"
proof -
  let ?d = "\<lparr>dtype = UInt8, shape = [2, 1, 2], buf = 0, offset = 0\<rparr>"
  let ?h = "[[1, 2, 3, 4 :: real]]"
  let ?w = "\<lparr>heap = ?h, trace = []\<rparr>"
  have v: "valid_array ?h ?d"
    by (simp add: valid_array_def)
  have vw: "valid_array (heap ?w) ?d"
    using v by simp
  have els: "elems ?h ?d = [1, 2, 3, 4]"
    by (simp add: elems_def)
  obtain out h' where p: "percentile_contrast percentile_linear ?d 1 99 ?h = (out, h')"
    by (cases "percentile_contrast percentile_linear ?d 1 99 ?h")
  obtain r w' where s: "summarize_movie percentile_linear ?d ''previews'' ?w = (r, w')"
    by (cases "summarize_movie percentile_linear ?d ''previews'' ?w")
  from inputs_unchanged [OF v p vw s] v p s els show ?thesis
    by simp
qed

subsection \<open>Where the scripts raise\<close>

text \<open>A stack with no frame has no middle frame: the index expression raises.\<close>

lemma summarize_movie_no_frames:
  assumes "shape data = 0 # rest"
  shows "fst (summarize_movie percentile data save_dir w) = Inl IndexError"
  using assms by (simp add: summarize_movie_def getitem_frame_def Let_def)

text \<open>A resolution with a zero numerator or denominator: the division raises.\<close>

lemma load_tiff_zero_resolution:
  assumes "fs tif_path = Some tif"
      and "tif_tags tif ''XResolution'' = Some (Rational xnum xden)"
      and "tif_tags tif ''YResolution'' = Some (Rational ynum yden)"
      and "xnum = 0 \<or> xden = 0 \<or> ynum = 0 \<or> yden = 0"
  shows "fst (load_tiff fs percentile tif_path w) = Inl ZeroDivisionError \<and>
         trace (snd (load_tiff fs percentile tif_path w)) = trace w"
  using assms
  by (auto simp: load_tiff_def asarray_def new_array_def pair_quotient_def truediv_def Let_def)

text \<open>A stack whose frames are not images: \<^verbatim>\<open>imshow\<close> raises before the animation is made.\<close>

lemma play_movie_not_image:
  assumes "shape data = n # rest" and "0 \<le> start" and "start < int n"
      and "\<not> image_shape_ok rest"
  shows "fst (play_movie percentile data start stop fps w) = Inl TypeError"
proof -
  let ?fr = "frame_view data (nat start)"
  have "\<exists>s. stop_or_length stop data = Inr s"
    using assms(1) by (cases stop) (simp_all add: stop_or_length_def)
  then obtain s where s: "stop_or_length stop data = Inr s"
    by blast
  obtain img h1 where c: "percentile_contrast percentile ?fr 1 99 (heap w) = (img, h1)"
    by (cases "percentile_contrast percentile ?fr 1 99 (heap w)")
  have "shape img = rest"
    using percentile_contrast_shape [OF c] assms(1) by (simp add: frame_view_def)
  then show ?thesis
    using s c assms(4) getitem_in_range [OF assms(1-3)] by (simp add: play_movie_def)
qed

end
